theory Spec2Isabelle
  imports Main
begin

section \<open>JavaScript strings, arrays and sets\<close>

text \<open>
  Strings are \<^typ>\<open>string\<close>. \<open>String.prototype.startsWith\<close> and \<open>endsWith\<close> compare a
  prefix or a suffix; a \<open>replace\<close> with a regular expression anchored at the end
  (\<open>/\.d\.ts$/\<close>) rewrites the suffix when it is there and returns the string
  unchanged otherwise.
\<close>

definition startsWith :: "string \<Rightarrow> string \<Rightarrow> bool" where
  "startsWith s p = (take (length p) s = p)"

definition endsWith :: "string \<Rightarrow> string \<Rightarrow> bool" where
  "endsWith s p = (length p \<le> length s \<and> drop (length s - length p) s = p)"

definition replaceSuffix :: "string \<Rightarrow> string \<Rightarrow> string \<Rightarrow> string" where
  "replaceSuffix suf rep s =
     (if endsWith s suf then take (length s - length suf) s @ rep else s)"

text \<open>
  A JavaScript \<open>Set\<close> of strings keeps its elements in insertion order and ignores a
  second \<open>add\<close> of an element: a list without repetition. \<open>Array.from\<close> of the set is
  the list itself, \<open>has\<close> is membership.
\<close>

definition set_add :: "'a \<Rightarrow> 'a list \<Rightarrow> 'a list" where
  "set_add x xs = (if x \<in> set xs then xs else xs @ [x])"

section \<open>The environment\<close>

text \<open>
  \<open>ProjectPrincipal.ts\<close> and \<open>typescript/resolveModuleNames.ts\<close> import helpers whose
  source is not part of the files at hand (\<open>util/path.js\<close>, \<open>util/modules.js\<close>,
  \<open>constants.js\<close>, \<open>typescript/ast-helpers.js\<close>, \<open>typescript/utils.js\<close>). They are
  parameters of the model, gathered in the record \<open>util\<close>: every theorem below holds
  for all of them.
\<close>

record util =
  sanitizeSpecifier :: "string \<Rightarrow> string"
  isStartsLikePackageName :: "string \<Rightarrow> bool"
  dirname :: "string \<Rightarrow> string"
  extname :: "string \<Rightarrow> string"
  join :: "string \<Rightarrow> string \<Rightarrow> string"
  isAbsolute :: "string \<Rightarrow> bool"
  isInNodeModules :: "string \<Rightarrow> bool"
  isInternal :: "string \<Rightarrow> bool"
  toPosix :: "string \<Rightarrow> string"
  isDeclarationFileExtension :: "string \<Rightarrow> bool"
  isVirtualFilePath :: "string \<Rightarrow> string list \<Rightarrow> bool"
  ensureRealFilePath :: "string \<Rightarrow> string list \<Rightarrow> string"
  DEFAULT_EXTENSIONS :: "string list"
  FOREIGN_FILE_EXTENSIONS :: "string list"

section \<open>ProjectPrincipal: entry and project paths\<close>

text \<open>
  The fields of the class that the operations below read or write. \<open>program\<close> is
  \<open>backend.program\<close>, seen through the only thing the class asks of it: the file
  names of its source files; it is \<open>None\<close> until \<open>createProgram\<close> has run.
  \<open>findReferencesReady\<close> says whether the lazily created language service is there.
\<close>

record principal =
  entryPaths :: "string list"
  projectPaths :: "string list"
  skipExportsAnalysis :: "string list"
  isGitIgnored :: "string \<Rightarrow> bool"
  extensions :: "string list"
  program :: "string list option"
  findReferencesReady :: bool

text \<open>The constructor: the three path sets start empty, the accepted extensions are
  the default ones and those of the compilers.\<close>

definition new_principal :: "util \<Rightarrow> (string \<Rightarrow> bool) \<Rightarrow> string list \<Rightarrow> principal" where
  "new_principal u ignored compilerExtensions =
     \<lparr> entryPaths = [], projectPaths = [], skipExportsAnalysis = [],
       isGitIgnored = ignored,
       extensions = fold set_add (DEFAULT_EXTENSIONS u @ compilerExtensions) [],
       program = None, findReferencesReady = False \<rparr>"

definition hasAcceptedExtension :: "util \<Rightarrow> principal \<Rightarrow> string \<Rightarrow> bool" where
  "hasAcceptedExtension u s filePath = (extname u filePath \<in> set (extensions s))"

text \<open>\<open>options\<close> is optional: \<open>None\<close> is a call without it, \<open>Some b\<close> is
  \<open>{ skipExportsAnalysis: b }\<close>.\<close>

definition addEntryPath :: "util \<Rightarrow> string \<Rightarrow> bool option \<Rightarrow> principal \<Rightarrow> principal" where
  "addEntryPath u filePath options s =
     (if \<not> isInNodeModules u filePath \<and> hasAcceptedExtension u s filePath then
        s\<lparr> entryPaths := set_add filePath (entryPaths s),
           projectPaths := set_add filePath (projectPaths s),
           skipExportsAnalysis :=
             (if options = Some True then set_add filePath (skipExportsAnalysis s)
              else skipExportsAnalysis s) \<rparr>
      else s)"

definition addEntryPaths :: "util \<Rightarrow> string list \<Rightarrow> bool option \<Rightarrow> principal \<Rightarrow> principal" where
  "addEntryPaths u filePaths options s = fold (\<lambda>filePath. addEntryPath u filePath options) filePaths s"

definition addProjectPath :: "util \<Rightarrow> string \<Rightarrow> principal \<Rightarrow> principal" where
  "addProjectPath u filePath s =
     (if \<not> isInNodeModules u filePath \<and> hasAcceptedExtension u s filePath then
        s\<lparr> projectPaths := set_add filePath (projectPaths s) \<rparr>
      else s)"

text \<open>A sequence of calls of the two operations, applied in order.\<close>

datatype path_op = AddEntryPath string "bool option" | AddProjectPath string

fun apply_path_op :: "util \<Rightarrow> path_op \<Rightarrow> principal \<Rightarrow> principal" where
  "apply_path_op u (AddEntryPath filePath options) s = addEntryPath u filePath options s"
| "apply_path_op u (AddProjectPath filePath) s = addProjectPath u filePath s"

definition run_path_ops :: "util \<Rightarrow> path_op list \<Rightarrow> principal \<Rightarrow> principal" where
  "run_path_ops u ops s = fold (apply_path_op u) ops s"

section \<open>ProjectPrincipal: used and unreferenced files\<close>

text \<open>
  What the model needs of Node.js, of the \<open>resolve\<close> package and of the TypeScript
  compiler, as functions:
  \<^item> \<open>isBuiltin\<close> of \<open>node:module\<close> and \<open>existsSync\<close> of \<open>node:fs\<close>;
  \<^item> \<open>resolve_sync specifier basedir extensions\<close> is \<open>resolve.sync\<close>, \<open>None\<close> when it
    throws;
  \<^item> \<open>ts_resolveModuleName sys specifier containingFile\<close> is the \<open>resolvedModule\<close> of
    \<open>ts.resolveModuleName\<close> under the compiler options of the resolver, with \<open>ts.sys\<close>
    or with the custom system;
  \<^item> \<open>ts_createProgram rootNames oldProgram\<close> is \<open>ts.createProgram\<close>, as the file names
    of the new program's source files;
  \<^item> \<open>findReferences\<close> is the language service's, \<open>None\<close> for \<open>undefined\<close>;
  \<^item> \<open>getImportsAndExports filePath skipExports\<close> is the file manager's source file
    handed to \<open>_getImportsAndExports\<close>: \<open>None\<close> when the file manager has no source
    file for the path.
\<close>

datatype sys = TsSys | CustomSys

record ResolvedModuleFull =
  resolvedFileName :: string
  extension :: string
  isExternalLibraryImport :: bool
  resolvedUsingTsExtension :: "bool option"

record ReferenceEntry =
  fileName :: string
  isDefinition :: bool

record ReferencedSymbol =
  references :: "ReferenceEntry list"

record SerializableExportMember =
  exportName :: string
  pos :: nat
  jsDocTags :: "string list"

record SerializableExport = SerializableExportMember +
  members :: "SerializableExportMember list"

record UnresolvedImport =
  specifier :: string
  importPos :: "nat option"

text \<open>The result of \<open>_getImportsAndExports\<close> and of \<open>analyzeSourceFile\<close>; the three
  import categories of its \<open>imports\<close> object are fields of the record itself.\<close>

record analysis =
  internal :: "string list"
  unresolved :: "UnresolvedImport list"
  external :: "string list"
  exports :: "SerializableExport list"
  scripts :: "string list"

record host =
  isBuiltin :: "string \<Rightarrow> bool"
  existsSync :: "string \<Rightarrow> bool"
  resolve_sync :: "string \<Rightarrow> string \<Rightarrow> string list \<Rightarrow> string option"
  ts_resolveModuleName :: "sys \<Rightarrow> string \<Rightarrow> string \<Rightarrow> ResolvedModuleFull option"
  ts_createProgram :: "string list \<Rightarrow> string list option \<Rightarrow> string list"
  findReferences :: "string \<Rightarrow> nat \<Rightarrow> ReferencedSymbol list option"
  getImportsAndExports :: "string \<Rightarrow> bool \<Rightarrow> analysis option"

definition createProgram :: "host \<Rightarrow> principal \<Rightarrow> principal" where
  "createProgram h s = s\<lparr> program := Some (ts_createProgram h (entryPaths s) (program s)) \<rparr>"

text \<open>\<open>new Set(undefined)\<close> is the empty set: without a program no file is a source
  file.\<close>

definition getProgramSourceFiles :: "principal \<Rightarrow> string list" where
  "getProgramSourceFiles s = (case program s of None \<Rightarrow> [] | Some programSourceFiles \<Rightarrow> programSourceFiles)"

definition getUsedResolvedFiles :: "host \<Rightarrow> principal \<Rightarrow> string list \<times> principal" where
  "getUsedResolvedFiles h s =
     (let s' = createProgram h s;
          sourceFiles = getProgramSourceFiles s'
      in (filter (\<lambda>filePath. filePath \<in> set sourceFiles) (projectPaths s'), s'))"

definition getUnreferencedFiles :: "principal \<Rightarrow> string list" where
  "getUnreferencedFiles s =
     (let sourceFiles = getProgramSourceFiles s
      in filter (\<lambda>filePath. filePath \<notin> set sourceFiles) (projectPaths s))"

section \<open>The module resolver\<close>

text \<open>
  Every call the resolver makes to the outside (\<open>resolve.sync\<close>, \<open>ts.resolveModuleName\<close>,
  \<open>existsSync\<close>) is recorded as a \<open>probe\<close>, in the order of the calls, so that
  "resolves without probing" is a statement about the model.
\<close>

datatype probe =
    ResolveSync string string
  | TsResolve sys string string
  | ExistsSync string

definition fileExists_path :: "util \<Rightarrow> string \<Rightarrow> string \<Rightarrow> string" where
  "fileExists_path u name containingFile =
     (if isAbsolute u name then name else join u (dirname u containingFile) name)"

definition fileExists :: "util \<Rightarrow> host \<Rightarrow> string \<Rightarrow> string \<Rightarrow> ResolvedModuleFull option" where
  "fileExists u h name containingFile =
     (let resolvedFileName = fileExists_path u name containingFile
      in if existsSync h resolvedFileName then
           Some \<lparr> resolvedFileName = resolvedFileName, extension = extname u name,
                  isExternalLibraryImport = False, resolvedUsingTsExtension = Some False \<rparr>
         else None)"

text \<open>The loop \<open>for (const ext of ['.js', '.jsx'])\<close>: the first extension whose file
  exists wins.\<close>

fun probeExtensions ::
  "util \<Rightarrow> host \<Rightarrow> string \<Rightarrow> string \<Rightarrow> string list \<Rightarrow> ResolvedModuleFull option \<times> probe list" where
  "probeExtensions u h base containingFile [] = (None, [])"
| "probeExtensions u h base containingFile (ext # exts) =
     (case fileExists u h (base @ ext) containingFile of
        Some module \<Rightarrow> (Some module, [ExistsSync (fileExists_path u (base @ ext) containingFile)])
      | None \<Rightarrow>
          (let (r, ps) = probeExtensions u h base containingFile exts
           in (r, ExistsSync (fileExists_path u (base @ ext) containingFile) # ps)))"

text \<open>Lines 83 to 109: an internal declaration file is translated to its
  implementation file.\<close>

definition implementationFile ::
  "util \<Rightarrow> host \<Rightarrow> string list \<Rightarrow> ResolvedModuleFull \<Rightarrow> string \<Rightarrow> ResolvedModuleFull option \<times> probe list" where
  "implementationFile u h virtualFileExtensions tsResolvedModule containingFile =
     (if extension tsResolvedModule = ''.d.mts'' then
        (Some \<lparr> resolvedFileName = replaceSuffix ''.d.mts'' ''.mjs'' (resolvedFileName tsResolvedModule),
                 extension = ''.mjs'', isExternalLibraryImport = False,
                 resolvedUsingTsExtension = Some False \<rparr>, [])
      else if extension tsResolvedModule = ''.d.cts'' then
        (Some \<lparr> resolvedFileName = replaceSuffix ''.d.cts'' ''.cjs'' (resolvedFileName tsResolvedModule),
                 extension = ''.cjs'', isExternalLibraryImport = False,
                 resolvedUsingTsExtension = Some False \<rparr>, [])
      else
        (let base = replaceSuffix ''.d.ts'' [] (resolvedFileName tsResolvedModule);
             baseExt = extname u base
         in if baseExt \<noteq> [] \<and> baseExt \<in> set virtualFileExtensions then
              (Some \<lparr> resolvedFileName = ensureRealFilePath u base virtualFileExtensions,
                       extension = ''.js'', isExternalLibraryImport = False,
                       resolvedUsingTsExtension = Some False \<rparr>, [])
            else
              (case probeExtensions u h base containingFile [''.js'', ''.jsx''] of
                 (Some module, ps) \<Rightarrow> (Some module, ps)
               | (None, ps) \<Rightarrow> (Some tsResolvedModule, ps))))"

text \<open>Lines 116 to 137: the compiler's resolution with the custom system.\<close>

definition resolveWithCustomSys ::
  "util \<Rightarrow> host \<Rightarrow> string list \<Rightarrow> string \<Rightarrow> string \<Rightarrow> ResolvedModuleFull option \<times> probe list" where
  "resolveWithCustomSys u h virtualFileExtensions sanitizedSpecifier containingFile =
     (let customResolvedModule = ts_resolveModuleName h CustomSys sanitizedSpecifier containingFile;
          p = TsResolve CustomSys sanitizedSpecifier containingFile;
          viaFileExists =
            (case fileExists u h sanitizedSpecifier containingFile of
               Some module \<Rightarrow> Some module
             | None \<Rightarrow> customResolvedModule,
             [p, ExistsSync (fileExists_path u sanitizedSpecifier containingFile)])
      in case customResolvedModule of
           None \<Rightarrow> viaFileExists
         | Some c \<Rightarrow>
             if \<not> isVirtualFilePath u (resolvedFileName c) virtualFileExtensions then viaFileExists
             else
               (Some \<lparr> resolvedFileName = ensureRealFilePath u (resolvedFileName c) virtualFileExtensions,
                        extension = ''.js'',
                        isExternalLibraryImport = isExternalLibraryImport c,
                        resolvedUsingTsExtension = None \<rparr>, [p]))"

text \<open>Lines 71 to 114: the compiler's own resolution, after \<open>resolve.sync\<close> threw.\<close>

definition resolveWithCompiler ::
  "util \<Rightarrow> host \<Rightarrow> string list \<Rightarrow> string \<Rightarrow> string \<Rightarrow> ResolvedModuleFull option \<times> probe list" where
  "resolveWithCompiler u h virtualFileExtensions sanitizedSpecifier containingFile =
     (let p = TsResolve TsSys sanitizedSpecifier containingFile;
          custom = (let (r, ps) = resolveWithCustomSys u h virtualFileExtensions sanitizedSpecifier containingFile
                    in (r, p # ps))
      in case ts_resolveModuleName h TsSys sanitizedSpecifier containingFile of
           None \<Rightarrow> custom
         | Some tsResolvedModule \<Rightarrow>
             if isDeclarationFileExtension u (extension tsResolvedModule) \<and>
                isInternal u (resolvedFileName tsResolvedModule)
             then (let (r, ps) = implementationFile u h virtualFileExtensions tsResolvedModule containingFile
                   in (r, p # ps))
             else if \<not> isVirtualFilePath u (resolvedFileName tsResolvedModule) virtualFileExtensions
             then (Some tsResolvedModule, [p])
             else custom)"

definition resolveModuleName ::
  "util \<Rightarrow> host \<Rightarrow> string list \<Rightarrow> string \<Rightarrow> string \<Rightarrow> ResolvedModuleFull option \<times> probe list" where
  "resolveModuleName u h virtualFileExtensions name containingFile =
     (let sanitizedSpecifier = sanitizeSpecifier u name
      in if isBuiltin h sanitizedSpecifier \<or> isInNodeModules u name then (None, [])
         else
           (let p = ResolveSync sanitizedSpecifier (dirname u containingFile)
            in case resolve_sync h sanitizedSpecifier (dirname u containingFile)
                      (DEFAULT_EXTENSIONS u @ virtualFileExtensions) of
                 Some resolved \<Rightarrow>
                   (let resolvedFileName = toPosix u resolved;
                        ext = extname u resolved;
                        extension = (if ext \<in> set virtualFileExtensions then ''.js'' else ext)
                    in (Some \<lparr> resolvedFileName = resolvedFileName, extension = extension,
                                isExternalLibraryImport = isInNodeModules u resolvedFileName,
                                resolvedUsingTsExtension = Some False \<rparr>, [p]))
               | None \<Rightarrow>
                   (let (r, ps) = resolveWithCompiler u h virtualFileExtensions sanitizedSpecifier containingFile
                    in (r, p # ps))))"

text \<open>
  The module-level \<open>resolutionCache\<close>: a \<open>Map\<close> whose values may be \<open>undefined\<close>, so a
  key can be present with the value \<open>None\<close>. \<open>invocations\<close> lists the calls of
  \<open>resolveModuleName\<close> made through the cache, \<open>probes\<close> what those calls asked of
  the outside.
\<close>

record resolver_state =
  resolutionCache :: "string \<rightharpoonup> ResolvedModuleFull option"
  invocations :: "(string \<times> string) list"
  probes :: "probe list"

definition empty_resolver :: resolver_state where
  "empty_resolver = \<lparr> resolutionCache = Map.empty, invocations = [], probes = [] \<rparr>"

definition cacheKey :: "util \<Rightarrow> string \<Rightarrow> string \<Rightarrow> string" where
  "cacheKey u moduleName containingFile =
     (if startsWith moduleName ''.'' then join u (dirname u containingFile) moduleName
      else containingFile @ '':'' @ moduleName)"

text \<open>The callback of \<open>moduleNames.map\<close>.\<close>

definition resolveCached ::
  "util \<Rightarrow> host \<Rightarrow> string list \<Rightarrow> string \<Rightarrow> string \<Rightarrow> resolver_state \<Rightarrow>
   ResolvedModuleFull option \<times> resolver_state" where
  "resolveCached u h virtualFileExtensions containingFile moduleName c =
     (let key = cacheKey u moduleName containingFile
      in case resolutionCache c key of
           Some cached \<Rightarrow> (cached, c)
         | None \<Rightarrow>
             (let (resolvedModule, ps) = resolveModuleName u h virtualFileExtensions moduleName containingFile
              in (resolvedModule,
                  c\<lparr> resolutionCache := (resolutionCache c)(key \<mapsto> resolvedModule),
                     invocations := invocations c @ [(moduleName, containingFile)],
                     probes := probes c @ ps \<rparr>)))"

fun resolveModuleNames ::
  "util \<Rightarrow> host \<Rightarrow> string list \<Rightarrow> string list \<Rightarrow> string \<Rightarrow> resolver_state \<Rightarrow>
   ResolvedModuleFull option list \<times> resolver_state" where
  "resolveModuleNames u h virtualFileExtensions [] containingFile c = ([], c)"
| "resolveModuleNames u h virtualFileExtensions (moduleName # moduleNames) containingFile c =
     (let (r, c') = resolveCached u h virtualFileExtensions containingFile moduleName c;
          (rs, c'') = resolveModuleNames u h virtualFileExtensions moduleNames containingFile c'
      in (r # rs, c''))"

text \<open>\<open>resolveModule\<close> of the principal: the first element of the one-element call.\<close>

definition resolveModule ::
  "util \<Rightarrow> host \<Rightarrow> string list \<Rightarrow> string \<Rightarrow> string \<Rightarrow> resolver_state \<Rightarrow>
   ResolvedModuleFull option \<times> resolver_state" where
  "resolveModule u h virtualFileExtensions spec filePath c =
     (case resolveModuleNames u h virtualFileExtensions [spec] filePath c of
        (r # _, c') \<Rightarrow> (r, c')
      | ([], c') \<Rightarrow> (None, c'))"

section \<open>ProjectPrincipal: analysing a source file\<close>

text \<open>
  What the \<open>forEach\<close> over the unresolved imports reads and writes: the principal
  (\<open>self\<close>), the resolver's cache, the \<open>external\<close> set of the imports and the new
  set \<open>unresolvedImports\<close>. The latter is a set of objects, compared by identity:
  each visited import is a different object, so adding one appends it.
\<close>

record walk =
  self :: principal
  resolver :: resolver_state
  externals :: "string list"
  unresolvedImports :: "UnresolvedImport list"

text \<open>The callback of \<open>unresolved.forEach\<close>, lines 222 to 253.\<close>

definition visitUnresolved ::
  "util \<Rightarrow> host \<Rightarrow> string list \<Rightarrow> string \<Rightarrow> UnresolvedImport \<Rightarrow> walk \<Rightarrow> walk" where
  "visitUnresolved u h virtualFileExtensions filePath unresolvedImport w =
     (let spec = specifier unresolvedImport
      in if startsWith spec ''http'' then w
         else
           (let (resolvedModule, c) = resolveModule u h virtualFileExtensions spec filePath (resolver w);
                w1 = w\<lparr> resolver := c \<rparr>
            in case resolvedModule of
                 Some m \<Rightarrow>
                   if isExternalLibraryImport m then
                     w1\<lparr> externals := set_add (sanitizeSpecifier u spec) (externals w1) \<rparr>
                   else
                     (let isIgnored = isGitIgnored (self w1) (resolvedFileName m)
                      in if \<not> isIgnored then
                           w1\<lparr> self := addEntryPath u (resolvedFileName m) (Some True) (self w1) \<rparr>
                         else w1)
               | None \<Rightarrow>
                   (let sanitizedSpecifier = sanitizeSpecifier u spec
                    in if isStartsLikePackageName u sanitizedSpecifier then
                         w1\<lparr> externals := set_add sanitizedSpecifier (externals w1) \<rparr>
                       else
                         (let isIgnored = isGitIgnored (self w1) (join u (dirname u filePath) sanitizedSpecifier)
                          in if \<not> isIgnored then
                               (let ext = extname u sanitizedSpecifier;
                                    hasIgnoredExtension = ext \<in> set (FOREIGN_FILE_EXTENSIONS u)
                                in if ext = [] \<or> (ext \<noteq> ''.json'' \<and> \<not> hasIgnoredExtension) then
                                     w1\<lparr> unresolvedImports := unresolvedImports w1 @ [unresolvedImport] \<rparr>
                                   else w1)
                             else w1))))"

datatype error = UnableToFind string

text \<open>\<open>analyzeSourceFile\<close> throws when the file manager has no source file; otherwise
  it returns the analysis with the \<open>unresolved\<close> and \<open>external\<close> imports as the walk
  left them, and the walk has updated the principal and the cache.\<close>

definition analyzeSourceFile ::
  "util \<Rightarrow> host \<Rightarrow> string list \<Rightarrow> string \<Rightarrow> principal \<Rightarrow> resolver_state \<Rightarrow>
   error + (analysis \<times> principal \<times> resolver_state)" where
  "analyzeSourceFile u h virtualFileExtensions filePath s c =
     (let skipExports = filePath \<in> set (skipExportsAnalysis s)
      in case getImportsAndExports h filePath skipExports of
           None \<Rightarrow> Inl (UnableToFind filePath)
         | Some a \<Rightarrow>
             (let w = fold (visitUnresolved u h virtualFileExtensions filePath) (unresolved a)
                        \<lparr> self = s, resolver = c, externals = external a, unresolvedImports = [] \<rparr>
              in Inr (a\<lparr> unresolved := unresolvedImports w, external := externals w \<rparr>,
                      self w, resolver w)))"

section \<open>ProjectPrincipal: references of exports\<close>

definition findUnusedMembers ::
  "host \<Rightarrow> string \<Rightarrow> SerializableExportMember list \<Rightarrow> principal \<Rightarrow>
   SerializableExportMember list \<times> principal" where
  "findUnusedMembers h filePath mems s =
     (filter (\<lambda>member.
        if ''@public'' \<in> set (jsDocTags member) then False
        else
          (let referencedSymbols = findReferences h filePath (pos member);
               files = map fileName (filter (\<lambda>ref. \<not> isDefinition ref)
                         (concat (map references (case referencedSymbols of None \<Rightarrow> [] | Some rs \<Rightarrow> rs))));
               internalRefs = filter (\<lambda>f. f = filePath) files;
               externalRefs = filter (\<lambda>f. f \<noteq> filePath) files
           in length externalRefs = 0 \<and> length internalRefs = 0)) mems,
      s\<lparr> findReferencesReady := True \<rparr>)"

definition hasReferences ::
  "host \<Rightarrow> string \<Rightarrow> SerializableExport \<Rightarrow> principal \<Rightarrow> bool \<times> principal" where
  "hasReferences h filePath exportedItem s =
     (if ''@public'' \<in> set (jsDocTags exportedItem) then (False, s)
      else
        (let referencedSymbols = findReferences h filePath (pos exportedItem);
             files = map fileName (filter (\<lambda>ref. \<not> isDefinition ref)
                       (concat (map references (case referencedSymbols of None \<Rightarrow> [] | Some rs \<Rightarrow> rs))));
             externalRefs = filter (\<lambda>f. f \<noteq> filePath) files
         in (length externalRefs > 0, s\<lparr> findReferencesReady := True \<rparr>)))"

section \<open>Runs of the resolver, reportable imports\<close>




text \<open>The imports that the callback reports as unresolved when their resolution
  fails: the tests of lines 224, 239, 244 and 247 together.\<close>

definition reportable :: "util \<Rightarrow> principal \<Rightarrow> string \<Rightarrow> UnresolvedImport \<Rightarrow> bool" where
  "reportable u s filePath i =
     (let sanitizedSpecifier = sanitizeSpecifier u (specifier i);
          ext = extname u sanitizedSpecifier
      in \<not> startsWith (specifier i) ''http''
         \<and> \<not> isStartsLikePackageName u sanitizedSpecifier
         \<and> \<not> isGitIgnored s (join u (dirname u filePath) sanitizedSpecifier)
         \<and> (ext = [] \<or> (ext \<noteq> ''.json'' \<and> ext \<notin> set (FOREIGN_FILE_EXTENSIONS u))))"

section \<open>A sample project\<close>

text \<open>
  A concrete environment on which the theorems are instantiated. The path helpers
  follow POSIX paths (\<open>dirname\<close>, \<open>extname\<close> and \<open>join\<close> of \<open>node:path\<close>, without the
  corner cases the sample does not meet); \<open>sample_sanitizeSpecifier\<close> drops a leading
  run of \<open>?!|-\<close> and keeps what comes before the first \<open>!\<close>, \<open>?\<close> or \<open>:\<close>, leaving
  built-in, absolute and \<open>virtual:\<close> specifiers alone; a specifier starts like a
  package name when its first character (after an optional \<open>@\<close>) is a lower case
  letter or a digit.
\<close>

fun includesString :: "string \<Rightarrow> string \<Rightarrow> bool" where
  "includesString [] sub = (sub = [])"
| "includesString (c # cs) sub = (startsWith (c # cs) sub \<or> includesString cs sub)"

fun segments :: "string \<Rightarrow> string \<Rightarrow> string list" where
  "segments cur [] = [rev cur]"
| "segments cur (c # cs) =
     (if c = CHR ''/'' then rev cur # segments [] cs else segments (c # cur) cs)"

fun normalizeSegments :: "string list \<Rightarrow> string list \<Rightarrow> string list" where
  "normalizeSegments acc [] = rev acc"
| "normalizeSegments acc (x # xs) =
     (if x = [] \<or> x = ''.'' then normalizeSegments acc xs
      else if x = ''..'' then normalizeSegments (tl acc) xs
      else normalizeSegments (x # acc) xs)"

fun joinSegments :: "string list \<Rightarrow> string" where
  "joinSegments [] = []"
| "joinSegments [x] = x"
| "joinSegments (x # y # ys) = x @ ''/'' @ joinSegments (y # ys)"

definition sample_isAbsolute :: "string \<Rightarrow> bool" where
  "sample_isAbsolute p = startsWith p ''/''"

definition sample_join :: "string \<Rightarrow> string \<Rightarrow> string" where
  "sample_join a b =
     (if sample_isAbsolute a then ''/'' else []) @
     joinSegments (normalizeSegments [] (segments [] (a @ ''/'' @ b)))"

definition sample_dirname :: "string \<Rightarrow> string" where
  "sample_dirname p =
     (let d = rev (drop 1 (dropWhile (\<lambda>c. c \<noteq> CHR ''/'') (rev p)))
      in if CHR ''/'' \<notin> set p then ''.'' else if d = [] then ''/'' else d)"

definition sample_extname :: "string \<Rightarrow> string" where
  "sample_extname p =
     (let b = rev (takeWhile (\<lambda>c. c \<noteq> CHR ''/'') (rev p));
          e = rev (takeWhile (\<lambda>c. c \<noteq> CHR ''.'') (rev b))
      in if CHR ''.'' \<notin> set b \<or> Suc (length e) = length b then [] else ''.'' @ e)"

definition sample_isInNodeModules :: "string \<Rightarrow> bool" where
  "sample_isInNodeModules p = includesString p ''node_modules''"

definition sample_builtins :: "string list" where
  "sample_builtins = [''fs'', ''path'', ''http'', ''https'', ''node:fs'', ''node:path'']"

definition sample_sanitizeSpecifier :: "string \<Rightarrow> string" where
  "sample_sanitizeSpecifier s =
     (if s \<in> set sample_builtins \<or> sample_isAbsolute s \<or> startsWith s ''virtual:'' then s
      else
        (let kept = takeWhile (\<lambda>c. c \<notin> set ''!?:'') (dropWhile (\<lambda>c. c \<in> set ''?!|-'') s)
         in if kept = [] then s else kept))"

definition sample_isStartsLikePackageName :: "string \<Rightarrow> bool" where
  "sample_isStartsLikePackageName s =
     (let lowerOrDigit = (\<lambda>c. c \<in> set ''abcdefghijklmnopqrstuvwxyz0123456789'')
      in case s of
           [] \<Rightarrow> False
         | c # cs \<Rightarrow>
             lowerOrDigit c \<or> (c = CHR ''@'' \<and> (case cs of [] \<Rightarrow> False | d # _ \<Rightarrow> lowerOrDigit d)))"

definition sample_isVirtualFilePath :: "string \<Rightarrow> string list \<Rightarrow> bool" where
  "sample_isVirtualFilePath p exts = list_ex (\<lambda>ext. endsWith p (ext @ ''.ts'')) exts"

definition sample_util :: util where
  "sample_util =
     \<lparr> sanitizeSpecifier = sample_sanitizeSpecifier,
       isStartsLikePackageName = sample_isStartsLikePackageName,
       dirname = sample_dirname,
       extname = sample_extname,
       join = sample_join,
       isAbsolute = sample_isAbsolute,
       isInNodeModules = sample_isInNodeModules,
       isInternal = (\<lambda>p. (startsWith p ''.'' \<or> sample_isAbsolute p) \<and> \<not> sample_isInNodeModules p),
       toPosix = (\<lambda>p. p),
       isDeclarationFileExtension = (\<lambda>e. e \<in> set [''.d.ts'', ''.d.mts'', ''.d.cts'']),
       isVirtualFilePath = sample_isVirtualFilePath,
       ensureRealFilePath =
         (\<lambda>p exts. if sample_isVirtualFilePath p exts then take (length p - 3) p else p),
       DEFAULT_EXTENSIONS = [''.js'', ''.mjs'', ''.cjs'', ''.jsx'', ''.ts'', ''.tsx'', ''.mts'', ''.cts''],
       FOREIGN_FILE_EXTENSIONS =
         [''.avif'', ''.css'', ''.eot'', ''.gif'', ''.html'', ''.ico'', ''.jpeg'', ''.jpg'',
          ''.less'', ''.mp3'', ''.png'', ''.sass'', ''.scss'', ''.sh'', ''.svg'', ''.ttf'',
          ''.webp'', ''.woff'', ''.woff2'', ''.yaml'', ''.yml''] \<rparr>"

text \<open>
  The files on disk. \<open>/p/src/lib.d.mts\<close> has no \<open>lib.mjs\<close> beside it and
  \<open>/p/src/types.d.ts\<close> no \<open>types.js\<close>; \<open>/p/src/legacy.d.ts\<close> has \<open>legacy.js\<close>.
\<close>

definition sample_files :: "string list" where
  "sample_files =
     [''/p/src/index.ts'', ''/p/src/a.ts'', ''/p/src/unused.ts'', ''/p/src/api.ts'',
      ''/p/src/lib.d.mts'', ''/p/src/types.d.ts'',
      ''/p/src/legacy.d.ts'', ''/p/src/legacy.js'',
      ''/p/src/styles.css'', ''/p/src/generated/client.ts'',
      ''/p/node_modules/left-pad/index.js'']"

text \<open>A cut-down \<open>resolve.sync\<close>: a relative or absolute specifier is the file itself
  or the file with one of the extensions; a bare one is the \<open>index.js\<close> of the package
  in \<open>/p/node_modules\<close>.\<close>

definition sample_resolve_sync :: "string \<Rightarrow> string \<Rightarrow> string list \<Rightarrow> string option" where
  "sample_resolve_sync spec basedir exts =
     (if startsWith spec ''.'' \<or> sample_isAbsolute spec then
        (let base = (if sample_isAbsolute spec then spec else sample_join basedir spec)
         in List.find (\<lambda>f. f \<in> set sample_files) (base # map (\<lambda>e. base @ e) exts))
      else
        List.find (\<lambda>f. f \<in> set sample_files) [''/p/node_modules/'' @ spec @ ''/index.js''])"

text \<open>The compiler's answers for the imports of \<open>/p/src/index.ts\<close>: \<open>./lib.mjs\<close> and
  \<open>./types\<close> have declaration files only, and the path alias \<open>~/legacy\<close> leads to a
  declaration file.\<close>

definition sample_ts_resolveModuleName :: "sys \<Rightarrow> string \<Rightarrow> string \<Rightarrow> ResolvedModuleFull option" where
  "sample_ts_resolveModuleName sy spec containingFile =
     (if containingFile \<noteq> ''/p/src/index.ts'' then None
      else if spec = ''./lib.mjs'' then
        Some \<lparr> resolvedFileName = ''/p/src/lib.d.mts'', extension = ''.d.mts'',
               isExternalLibraryImport = False, resolvedUsingTsExtension = Some False \<rparr>
      else if spec = ''./types'' then
        Some \<lparr> resolvedFileName = ''/p/src/types.d.ts'', extension = ''.d.ts'',
               isExternalLibraryImport = False, resolvedUsingTsExtension = Some False \<rparr>
      else if spec = ''~/legacy'' then
        Some \<lparr> resolvedFileName = ''/p/src/legacy.d.ts'', extension = ''.d.ts'',
               isExternalLibraryImport = False, resolvedUsingTsExtension = Some False \<rparr>
      else None)"

definition sample_import :: "string \<Rightarrow> UnresolvedImport" where
  "sample_import spec = \<lparr> specifier = spec, importPos = None \<rparr>"

definition sample_host :: host where
  "sample_host =
     \<lparr> isBuiltin = (\<lambda>s. s \<in> set sample_builtins),
       existsSync = (\<lambda>f. f \<in> set sample_files),
       resolve_sync = sample_resolve_sync,
       ts_resolveModuleName = sample_ts_resolveModuleName,
       ts_createProgram =
         (\<lambda>rootNames oldProgram.
            if ''/p/src/index.ts'' \<in> set rootNames then set_add ''/p/src/a.ts'' rootNames
            else rootNames),
       findReferences =
         (\<lambda>filePath position.
            if filePath = ''/p/src/api.ts'' \<and> position = 13 then
              Some [\<lparr> references =
                       [\<lparr> fileName = ''/p/src/api.ts'', isDefinition = True \<rparr>,
                        \<lparr> fileName = ''/p/src/index.ts'', isDefinition = False \<rparr>] \<rparr>]
            else None),
       getImportsAndExports =
         (\<lambda>filePath skipExports.
            if filePath = ''/p/src/index.ts'' then
              Some \<lparr> internal = [], unresolved =
                       [sample_import ''http://localhost/mod.ts'', sample_import ''./a'',
                        sample_import ''not-exist'', sample_import ''./logo.png'',
                        sample_import ''./missing''],
                     external = [''left-pad''], exports = [], scripts = [] \<rparr>
            else None) \<rparr>"

text \<open>The principal of the sample project; everything under \<open>/p/src/generated\<close> is
  ignored.\<close>

definition sample_principal :: principal where
  "sample_principal =
     new_principal sample_util (\<lambda>p. startsWith p ''/p/src/generated/'') []"

definition sample_walk :: walk where
  "sample_walk =
     \<lparr> self = sample_principal, resolver = empty_resolver, externals = [], unresolvedImports = [] \<rparr>"

text \<open>Calls that set up the sample project: an entry file, a project file, a script
  without an extension and a file of a dependency.\<close>

definition sample_ops :: "path_op list" where
  "sample_ops =
     [AddEntryPath ''/p/src/index.ts'' None, AddProjectPath ''/p/src/unused.ts'',
      AddEntryPath ''/p/bin/tool'' None,
      AddProjectPath ''/p/node_modules/left-pad/index.js'']"

text \<open>The sample project once its paths are set up, and two exports of
  \<open>/p/src/api.ts\<close> at the same position, one of them tagged \<open>@public\<close>.\<close>

definition sample_project :: principal where
  "sample_project = run_path_ops sample_util sample_ops sample_principal"

definition sample_export :: "string list \<Rightarrow> SerializableExport" where
  "sample_export tags = \<lparr> exportName = ''api'', pos = 13, jsDocTags = tags, members = [] \<rparr>"

definition sample_member :: "string \<Rightarrow> nat \<Rightarrow> string list \<Rightarrow> SerializableExportMember" where
  "sample_member name position tags = \<lparr> exportName = name, pos = position, jsDocTags = tags \<rparr>"

text \<open>The same project with \<open>/p/src/a.ts\<close> among its project paths: a project path
  that is no entry path and that the program reaches from \<open>/p/src/index.ts\<close>.\<close>

definition sample_graph :: principal where
  "sample_graph = addProjectPath sample_util ''/p/src/a.ts'' sample_project"

text \<open>A module of the sample project that is not an external library import, as a
  resolution result.\<close>

definition sample_module :: "string \<Rightarrow> string \<Rightarrow> ResolvedModuleFull" where
  "sample_module file ext =
     \<lparr> resolvedFileName = file, extension = ext,
       isExternalLibraryImport = False, resolvedUsingTsExtension = Some False \<rparr>"

section \<open>Unfolding the definitions\<close>

lemmas sample_path_defs =
  sample_util_def sample_isAbsolute_def sample_join_def sample_dirname_def sample_extname_def
  sample_isInNodeModules_def sample_sanitizeSpecifier_def sample_isStartsLikePackageName_def
  sample_isVirtualFilePath_def sample_builtins_def startsWith_def endsWith_def replaceSuffix_def

lemmas sample_host_defs =
  sample_host_def sample_files_def sample_resolve_sync_def sample_ts_resolveModuleName_def
  sample_import_def

lemmas resolver_defs =
  resolveModuleName_def resolveWithCompiler_def resolveWithCustomSys_def implementationFile_def
  fileExists_def fileExists_path_def resolveCached_def cacheKey_def resolveModule_def

lemmas sample_visit_defs =
  visitUnresolved_def resolver_defs sample_host_defs sample_path_defs empty_resolver_def
  sample_walk_def sample_principal_def new_principal_def addEntryPath_def hasAcceptedExtension_def
  set_add_def Let_def

section \<open>Facts about sets as lists\<close>

lemma set_set_add: "set (set_add x xs) = insert x (set xs)"
  by (auto simp: set_add_def)

lemma distinct_set_add: "distinct xs \<Longrightarrow> distinct (set_add x xs)"
  by (simp add: set_add_def)

section \<open>The path sets\<close>

lemma addEntryPath_subset:
  "set (entryPaths s) \<subseteq> set (projectPaths s) \<Longrightarrow>
   set (entryPaths (addEntryPath u p opt s)) \<subseteq> set (projectPaths (addEntryPath u p opt s))"
  by (auto simp: addEntryPath_def set_set_add)

lemma addProjectPath_subset:
  "set (entryPaths s) \<subseteq> set (projectPaths s) \<Longrightarrow>
   set (entryPaths (addProjectPath u p s)) \<subseteq> set (projectPaths (addProjectPath u p s))"
  by (auto simp: addProjectPath_def set_set_add)

lemma apply_path_op_subset:
  "set (entryPaths s) \<subseteq> set (projectPaths s) \<Longrightarrow>
   set (entryPaths (apply_path_op u x s)) \<subseteq> set (projectPaths (apply_path_op u x s))"
  by (cases x) (simp_all add: addEntryPath_subset addProjectPath_subset)

lemma run_path_ops_subset:
  "set (entryPaths s) \<subseteq> set (projectPaths s) \<Longrightarrow>
   set (entryPaths (run_path_ops u ops s)) \<subseteq> set (projectPaths (run_path_ops u ops s))"
  unfolding run_path_ops_def
proof (induction ops arbitrary: s)
  case Nil
  then show ?case by simp
next
  case (Cons x ops)
  from Cons.prems have "set (entryPaths (apply_path_op u x s)) \<subseteq> set (projectPaths (apply_path_op u x s))"
    by (rule apply_path_op_subset)
  then show ?case using Cons.IH by simp
qed

subsection \<open>Rejected paths\<close>

lemma run_path_ops_extensions: "extensions (run_path_ops u ops s) = extensions s"
  unfolding run_path_ops_def
proof (induction ops arbitrary: s)
  case Nil
  show ?case by simp
next
  case (Cons x ops)
  have "extensions (apply_path_op u x s) = extensions s"
    by (cases x) (simp_all add: addEntryPath_def addProjectPath_def)
  with Cons.IH show ?case by simp
qed

lemma rejected_path_unchanged:
  "isInNodeModules u filePath \<or> \<not> hasAcceptedExtension u s filePath \<Longrightarrow>
   addEntryPath u filePath options s = s \<and> addProjectPath u filePath s = s"
  by (auto simp: addEntryPath_def addProjectPath_def)

lemma apply_path_op_rejected:
  assumes "isInNodeModules u p \<or> extname u p \<notin> set (extensions s)"
  shows "(p \<in> set (entryPaths (apply_path_op u x s)) \<longleftrightarrow> p \<in> set (entryPaths s)) \<and>
         (p \<in> set (projectPaths (apply_path_op u x s)) \<longleftrightarrow> p \<in> set (projectPaths s))"
  using assms
  by (cases x) (auto simp: addEntryPath_def addProjectPath_def hasAcceptedExtension_def set_set_add)

lemma run_path_ops_rejected:
  assumes "isInNodeModules u p \<or> extname u p \<notin> set (extensions s)"
  shows "(p \<in> set (entryPaths (run_path_ops u ops s)) \<longleftrightarrow> p \<in> set (entryPaths s)) \<and>
         (p \<in> set (projectPaths (run_path_ops u ops s)) \<longleftrightarrow> p \<in> set (projectPaths s))"
  using assms
proof (induction ops arbitrary: s)
  case Nil
  show ?case by (simp add: run_path_ops_def)
next
  case (Cons x ops)
  have ext: "extensions (apply_path_op u x s) = extensions s"
    by (cases x) (simp_all add: addEntryPath_def addProjectPath_def)
  have step: "run_path_ops u (x # ops) s = run_path_ops u ops (apply_path_op u x s)"
    by (simp add: run_path_ops_def)
  from Cons.prems ext have "isInNodeModules u p \<or> extname u p \<notin> set (extensions (apply_path_op u x s))"
    by simp
  from Cons.IH [OF this] apply_path_op_rejected [OF Cons.prems, of x] step
  show ?case by simp
qed

text \<open>
  C5. After every sequence of \<open>addEntryPath\<close> and \<open>addProjectPath\<close> calls on a new
  principal the entry paths are among the project paths (and the calls keep it so from
  any state where it holds). A path inside \<open>node_modules\<close>, or whose extension is not an
  accepted one, is added by neither operation: each leaves the principal as it is,
  and no sequence of the calls changes whether the path is in either set.
\<close>

theorem entryPaths_subset_projectPaths:
  "set (entryPaths (run_path_ops u ops (new_principal u ignored compilerExtensions)))
     \<subseteq> set (projectPaths (run_path_ops u ops (new_principal u ignored compilerExtensions)))
   \<and> (set (entryPaths s) \<subseteq> set (projectPaths s) \<longrightarrow>
        set (entryPaths (run_path_ops u ops s)) \<subseteq> set (projectPaths (run_path_ops u ops s)))
   \<and> (isInNodeModules u filePath \<or> \<not> hasAcceptedExtension u s filePath \<longrightarrow>
        addEntryPath u filePath options s = s \<and> addProjectPath u filePath s = s
        \<and> (filePath \<in> set (entryPaths (run_path_ops u ops s)) \<longleftrightarrow> filePath \<in> set (entryPaths s))
        \<and> (filePath \<in> set (projectPaths (run_path_ops u ops s)) \<longleftrightarrow> filePath \<in> set (projectPaths s)))"
proof (intro conjI impI)
  have "set (entryPaths (new_principal u ignored compilerExtensions))
          \<subseteq> set (projectPaths (new_principal u ignored compilerExtensions))"
    by (simp add: new_principal_def)
  then show "set (entryPaths (run_path_ops u ops (new_principal u ignored compilerExtensions)))
     \<subseteq> set (projectPaths (run_path_ops u ops (new_principal u ignored compilerExtensions)))"
    by (rule run_path_ops_subset)
next
  assume "set (entryPaths s) \<subseteq> set (projectPaths s)"
  then show "set (entryPaths (run_path_ops u ops s)) \<subseteq> set (projectPaths (run_path_ops u ops s))"
    by (rule run_path_ops_subset)
next
  assume r: "isInNodeModules u filePath \<or> \<not> hasAcceptedExtension u s filePath"
  then show "addEntryPath u filePath options s = s" "addProjectPath u filePath s = s"
    using rejected_path_unchanged by blast+
  from r have r': "isInNodeModules u filePath \<or> extname u filePath \<notin> set (extensions s)"
    by (simp add: hasAcceptedExtension_def)
  from run_path_ops_rejected [OF r']
  show "filePath \<in> set (entryPaths (run_path_ops u ops s)) \<longleftrightarrow> filePath \<in> set (entryPaths s)"
    and "filePath \<in> set (projectPaths (run_path_ops u ops s)) \<longleftrightarrow> filePath \<in> set (projectPaths s)"
    by blast+
qed

lemma sample_ops_run:
  "entryPaths (run_path_ops sample_util sample_ops sample_principal) = [''/p/src/index.ts'']"
  "projectPaths (run_path_ops sample_util sample_ops sample_principal) = [''/p/src/index.ts'', ''/p/src/unused.ts'']"
  by (simp_all add: sample_ops_def run_path_ops_def sample_principal_def new_principal_def addEntryPath_def
     addProjectPath_def hasAcceptedExtension_def set_add_def sample_path_defs)

theorem entryPaths_subset_projectPaths_witness:
  "\<not> hasAcceptedExtension sample_util sample_principal ''/p/bin/tool''
   \<and> entryPaths (run_path_ops sample_util sample_ops sample_principal) = [''/p/src/index.ts'']
   \<and> projectPaths (run_path_ops sample_util sample_ops sample_principal)
       = [''/p/src/index.ts'', ''/p/src/unused.ts'']
   \<and> set (entryPaths (run_path_ops sample_util sample_ops sample_principal))
       \<subseteq> set (projectPaths (run_path_ops sample_util sample_ops sample_principal))
   \<and> addEntryPath sample_util ''/p/bin/tool'' None sample_principal = sample_principal
   \<and> addProjectPath sample_util ''/p/bin/tool'' sample_principal = sample_principal
   \<and> ''/p/bin/tool'' \<notin> set (projectPaths (run_path_ops sample_util sample_ops sample_principal))"
proof -
  have rej: "\<not> hasAcceptedExtension sample_util sample_principal ''/p/bin/tool''"
    by (simp add: hasAcceptedExtension_def sample_principal_def new_principal_def set_add_def sample_path_defs)
  have init: "set (entryPaths sample_principal) \<subseteq> set (projectPaths sample_principal)"
    "''/p/bin/tool'' \<notin> set (projectPaths sample_principal)"
    by (simp_all add: sample_principal_def new_principal_def)
  from rej init sample_ops_run
    entryPaths_subset_projectPaths [of sample_util sample_ops "\<lambda>p. startsWith p ''/p/src/generated/''" "[]"
      sample_principal "''/p/bin/tool''" None]
  show ?thesis by (simp add: sample_principal_def [symmetric])
qed

section \<open>The resolution cache\<close>







subsection \<open>At most one computation per key\<close>







section \<open>Used and unreferenced files\<close>

lemma getUsedResolvedFiles_program:
  assumes "getUsedResolvedFiles h s = (used, s')"
  shows "s' = s\<lparr> program := Some (ts_createProgram h (entryPaths s) (program s)) \<rparr>"
    and "getProgramSourceFiles s' = ts_createProgram h (entryPaths s) (program s)"
    and "used = filter (\<lambda>filePath. filePath \<in> set (ts_createProgram h (entryPaths s) (program s)))
                  (projectPaths s)"
proof -
  from assms show s': "s' = s\<lparr> program := Some (ts_createProgram h (entryPaths s) (program s)) \<rparr>"
    by (auto simp: getUsedResolvedFiles_def createProgram_def Let_def)
  then show files: "getProgramSourceFiles s' = ts_createProgram h (entryPaths s) (program s)"
    by (simp add: getProgramSourceFiles_def)
  from assms have "used = filter (\<lambda>filePath. filePath \<in> set (getProgramSourceFiles s')) (projectPaths s')"
    by (auto simp: getUsedResolvedFiles_def Let_def)
  with files s'
  show "used = filter (\<lambda>filePath. filePath \<in> set (ts_createProgram h (entryPaths s) (program s)))
                  (projectPaths s)"
    by simp
qed

text \<open>
  C4. \<open>getUsedResolvedFiles\<close> builds the program with \<open>ts.createProgram\<close> from the entry
  paths and the previous program, and stores it. The source files that the principal
  then reports are those of that program, and against them \<open>getUnreferencedFiles\<close> and
  the used files split the project paths: together they are all of them, no path is
  in both and none is counted twice, a project path is used exactly when the built
  program's source files include it and unreferenced exactly when they do not.
\<close>

theorem used_unreferenced_partition:
  assumes "getUsedResolvedFiles h s = (used, s')"
  shows "program s' \<noteq> None \<and> projectPaths s' = projectPaths s
    \<and> program s' = Some (ts_createProgram h (entryPaths s) (program s))
    \<and> getProgramSourceFiles s' = ts_createProgram h (entryPaths s) (program s)
    \<and> set used \<union> set (getUnreferencedFiles s') = set (projectPaths s')
    \<and> set used \<inter> set (getUnreferencedFiles s') = {}
    \<and> length used + length (getUnreferencedFiles s') = length (projectPaths s')
    \<and> (filePath \<in> set used \<longleftrightarrow>
         filePath \<in> set (projectPaths s') \<and> filePath \<in> set (getProgramSourceFiles s'))
    \<and> (filePath \<in> set (getUnreferencedFiles s') \<longleftrightarrow>
         filePath \<in> set (projectPaths s') \<and> filePath \<notin> set (getProgramSourceFiles s'))
    \<and> (filePath \<in> set used \<longleftrightarrow>
         filePath \<in> set (projectPaths s)
         \<and> filePath \<in> set (ts_createProgram h (entryPaths s) (program s)))
    \<and> (filePath \<in> set (getUnreferencedFiles s') \<longleftrightarrow>
         filePath \<in> set (projectPaths s)
         \<and> filePath \<notin> set (ts_createProgram h (entryPaths s) (program s)))"
proof -
  note built = getUsedResolvedFiles_program [OF assms]
  have paths: "projectPaths s' = projectPaths s" and prog: "program s' \<noteq> None"
    and stored: "program s' = Some (ts_createProgram h (entryPaths s) (program s))"
    by (simp_all add: built(1))
  have used: "used = filter (\<lambda>filePath. filePath \<in> set (getProgramSourceFiles s')) (projectPaths s')"
    using built(3) by (simp add: built(2) paths)
  have unref: "getUnreferencedFiles s'
      = filter (\<lambda>filePath. filePath \<notin> set (getProgramSourceFiles s')) (projectPaths s')"
    by (simp add: getUnreferencedFiles_def Let_def)
  have "set used \<union> set (getUnreferencedFiles s') = set (projectPaths s')"
    unfolding used unref by auto
  moreover have "set used \<inter> set (getUnreferencedFiles s') = {}"
    unfolding used unref by auto
  moreover have "length used + length (getUnreferencedFiles s') = length (projectPaths s')"
    unfolding used unref by (rule sum_length_filter_compl)
  moreover have in_used: "filePath \<in> set used \<longleftrightarrow>
         filePath \<in> set (projectPaths s') \<and> filePath \<in> set (getProgramSourceFiles s')"
    unfolding used by auto
  moreover have in_unref: "filePath \<in> set (getUnreferencedFiles s') \<longleftrightarrow>
         filePath \<in> set (projectPaths s') \<and> filePath \<notin> set (getProgramSourceFiles s')"
    unfolding unref by auto
  moreover have "filePath \<in> set used \<longleftrightarrow>
         filePath \<in> set (projectPaths s)
         \<and> filePath \<in> set (ts_createProgram h (entryPaths s) (program s))"
    using in_used by (simp add: built(2) paths)
  moreover have "filePath \<in> set (getUnreferencedFiles s') \<longleftrightarrow>
         filePath \<in> set (projectPaths s)
         \<and> filePath \<notin> set (ts_createProgram h (entryPaths s) (program s))"
    using in_unref by (simp add: built(2) paths)
  ultimately show ?thesis using paths prog stored built(2) by blast
qed

lemma sample_graph_paths:
  "entryPaths sample_graph = [''/p/src/index.ts'']"
  "projectPaths sample_graph = [''/p/src/index.ts'', ''/p/src/unused.ts'', ''/p/src/a.ts'']"
  "program sample_graph = None"
  by (simp_all add: sample_graph_def sample_project_def sample_ops_def run_path_ops_def
      sample_principal_def new_principal_def addEntryPath_def addProjectPath_def
      hasAcceptedExtension_def set_add_def sample_path_defs)

lemma sample_program:
  "ts_createProgram sample_host (entryPaths sample_graph) (program sample_graph)
   = [''/p/src/index.ts'', ''/p/src/a.ts'']"
  by (simp add: sample_graph_paths sample_host_def set_add_def)

lemma sample_used:
  "getUsedResolvedFiles sample_host sample_graph
   = ([''/p/src/index.ts'', ''/p/src/a.ts''],
      sample_graph\<lparr> program := Some [''/p/src/index.ts'', ''/p/src/a.ts''] \<rparr>)"
  by (simp add: getUsedResolvedFiles_def createProgram_def getProgramSourceFiles_def
      sample_graph_paths sample_host_def set_add_def Let_def)

text \<open>In the sample, \<open>/p/src/a.ts\<close> is a project path and no entry path; the program
  built from the entry path \<open>/p/src/index.ts\<close> includes it, so it is used, and
  \<open>/p/src/unused.ts\<close>, which the program does not include, is the one unreferenced
  file.\<close>

theorem used_unreferenced_partition_witness:
  "getUsedResolvedFiles sample_host sample_graph
     = ([''/p/src/index.ts'', ''/p/src/a.ts''],
        sample_graph\<lparr> program := Some [''/p/src/index.ts'', ''/p/src/a.ts''] \<rparr>)
   \<and> entryPaths sample_graph = [''/p/src/index.ts'']
   \<and> projectPaths sample_graph = [''/p/src/index.ts'', ''/p/src/unused.ts'', ''/p/src/a.ts'']
   \<and> ts_createProgram sample_host (entryPaths sample_graph) (program sample_graph)
       = [''/p/src/index.ts'', ''/p/src/a.ts'']
   \<and> getProgramSourceFiles (snd (getUsedResolvedFiles sample_host sample_graph))
       = [''/p/src/index.ts'', ''/p/src/a.ts'']
   \<and> ''/p/src/a.ts'' \<notin> set (entryPaths sample_graph)
   \<and> ''/p/src/a.ts'' \<in> set (fst (getUsedResolvedFiles sample_host sample_graph))
   \<and> ''/p/src/a.ts'' \<notin> set (getUnreferencedFiles (snd (getUsedResolvedFiles sample_host sample_graph)))
   \<and> ''/p/src/unused.ts'' \<notin> set (fst (getUsedResolvedFiles sample_host sample_graph))
   \<and> ''/p/src/unused.ts'' \<in> set (getUnreferencedFiles (snd (getUsedResolvedFiles sample_host sample_graph)))
   \<and> getUnreferencedFiles (snd (getUsedResolvedFiles sample_host sample_graph)) = [''/p/src/unused.ts'']"
proof -
  let ?s' = "sample_graph\<lparr> program := Some [''/p/src/index.ts'', ''/p/src/a.ts''] \<rparr>"
  note a = used_unreferenced_partition [OF sample_used, of "''/p/src/a.ts''"]
  note unused = used_unreferenced_partition [OF sample_used, of "''/p/src/unused.ts''"]
  from a have "getProgramSourceFiles ?s'
      = ts_createProgram sample_host (entryPaths sample_graph) (program sample_graph)"
    by blast
  then have files: "getProgramSourceFiles ?s' = [''/p/src/index.ts'', ''/p/src/a.ts'']"
    by (simp only: sample_program)
  from a have "''/p/src/a.ts'' \<in> set (getUnreferencedFiles ?s') \<longleftrightarrow>
      ''/p/src/a.ts'' \<in> set (projectPaths sample_graph)
      \<and> ''/p/src/a.ts'' \<notin> set (ts_createProgram sample_host (entryPaths sample_graph) (program sample_graph))"
    by blast
  then have a_ref: "''/p/src/a.ts'' \<notin> set (getUnreferencedFiles ?s')"
    by (simp add: sample_program)
  from unused have "''/p/src/unused.ts'' \<in> set (getUnreferencedFiles ?s') \<longleftrightarrow>
      ''/p/src/unused.ts'' \<in> set (projectPaths sample_graph)
      \<and> ''/p/src/unused.ts'' \<notin> set (ts_createProgram sample_host (entryPaths sample_graph) (program sample_graph))"
    by blast
  then have u_unref: "''/p/src/unused.ts'' \<in> set (getUnreferencedFiles ?s')"
    by (simp add: sample_program sample_graph_paths(2))
  have unref: "getUnreferencedFiles ?s' = [''/p/src/unused.ts'']"
    by (simp add: getUnreferencedFiles_def getProgramSourceFiles_def sample_graph_paths)
  have fst_used: "fst (getUsedResolvedFiles sample_host sample_graph) = [''/p/src/index.ts'', ''/p/src/a.ts'']"
    and snd_used: "snd (getUsedResolvedFiles sample_host sample_graph) = ?s'"
    by (simp_all add: sample_used)
  have c5: "getProgramSourceFiles (snd (getUsedResolvedFiles sample_host sample_graph))
       = [''/p/src/index.ts'', ''/p/src/a.ts'']"
    by (simp only: snd_used files)
  have c6: "''/p/src/a.ts'' \<notin> set (entryPaths sample_graph)"
    by (simp add: sample_graph_paths(1))
  have c7: "''/p/src/a.ts'' \<in> set (fst (getUsedResolvedFiles sample_host sample_graph))"
    and c9: "''/p/src/unused.ts'' \<notin> set (fst (getUsedResolvedFiles sample_host sample_graph))"
    by (simp_all add: fst_used)
  have c8: "''/p/src/a.ts'' \<notin> set (getUnreferencedFiles (snd (getUsedResolvedFiles sample_host sample_graph)))"
    and c10: "''/p/src/unused.ts'' \<in> set (getUnreferencedFiles (snd (getUsedResolvedFiles sample_host sample_graph)))"
    and c11: "getUnreferencedFiles (snd (getUsedResolvedFiles sample_host sample_graph)) = [''/p/src/unused.ts'']"
    using a_ref u_unref unref by (simp_all add: snd_used)
  from sample_used sample_graph_paths(1,2) sample_program c5 c6 c7 c8 c9 c10 c11
  show ?thesis by blast
qed

section \<open>Exports tagged as public\<close>

lemma findUnusedMembers_public:
  "member \<in> set (fst (findUnusedMembers h filePath mems s)) \<Longrightarrow> ''@public'' \<notin> set (jsDocTags member)"
  by (auto simp: findUnusedMembers_def split: if_splits)

lemma findUnusedMembers_subset:
  "set (fst (findUnusedMembers h filePath mems s)) \<subseteq> set mems"
  by (auto simp: findUnusedMembers_def)

lemma hasReferences_public:
  "''@public'' \<in> set (jsDocTags exportedItem) \<Longrightarrow> hasReferences h filePath exportedItem s = (False, s)"
  by (simp add: hasReferences_def)

lemma sample_findUnusedMembers:
  "fst (findUnusedMembers sample_host ''/p/src/api.ts''
         [sample_member ''A'' 13 [], sample_member ''B'' 40 [''@public''], sample_member ''C'' 55 []]
         sample_project)
   = [sample_member ''C'' 55 []]"
  by (simp add: findUnusedMembers_def sample_member_def sample_host_def)

text \<open>
  C1. The claim wants \<open>hasReferences\<close> to treat an export tagged \<open>@public\<close> as used.
  The code returns \<open>false\<close> for it: the export of \<open>/p/src/api.ts\<close> at position 13 is
  referenced from \<open>/p/src/index.ts\<close>, and \<open>hasReferences\<close> says so without the tag and
  denies it with the tag. (\<open>findUnusedMembers\<close> does leave tagged members out, see
  \<open>findUnusedMembers_public\<close>.)
\<close>

theorem hasReferences_public_denied:
  "fst (hasReferences sample_host ''/p/src/api.ts'' (sample_export [''@public'']) sample_project) = False
   \<and> fst (hasReferences sample_host ''/p/src/api.ts'' (sample_export []) sample_project) = True"
  by (simp add: hasReferences_def sample_export_def sample_host_def)

section \<open>Built-in modules and dependencies' files\<close>

lemma resolveCached_fresh:
  "resolutionCache c (cacheKey u m cf) = None \<Longrightarrow>
   fst (resolveCached u h v cf m c) = fst (resolveModuleName u h v m cf)"
  by (simp add: resolveCached_def Let_def split: prod.splits)

lemma resolveModule_fresh:
  "resolutionCache c (cacheKey u m cf) = None \<Longrightarrow>
   fst (resolveModule u h v m cf c) = fst (resolveModuleName u h v m cf)"
  using resolveCached_fresh [of c u m cf h v]
  by (simp add: resolveModule_def case_prod_unfold)

text \<open>
  C9. When the sanitized specifier names a built-in module (the test the code makes),
  or the specifier lies inside \<open>node_modules\<close>, \<open>resolveModuleName\<close> returns \<open>undefined\<close>
  and has made no call to \<open>resolve.sync\<close>, to the compiler's resolution or to the file
  system. An unresolved import with such a specifier, not cached before, adds no path
  to the principal.
\<close>

theorem builtin_or_dependency_unresolved:
  assumes "isBuiltin h (sanitizeSpecifier u name) \<or> isInNodeModules u name"
  shows "resolveModuleName u h virtualFileExtensions name containingFile = (None, [])
    \<and> (resolutionCache (resolver w) (cacheKey u name containingFile) = None \<longrightarrow>
         self (visitUnresolved u h virtualFileExtensions containingFile
                 \<lparr> specifier = name, importPos = position \<rparr> w) = self w)"
proof
  from assms show none: "resolveModuleName u h virtualFileExtensions name containingFile = (None, [])"
    by (auto simp: resolveModuleName_def Let_def)
  show "resolutionCache (resolver w) (cacheKey u name containingFile) = None \<longrightarrow>
         self (visitUnresolved u h virtualFileExtensions containingFile
                 \<lparr> specifier = name, importPos = position \<rparr> w) = self w"
  proof
    assume "resolutionCache (resolver w) (cacheKey u name containingFile) = None"
    from resolveModule_fresh [OF this, of h virtualFileExtensions] none
    have "fst (resolveModule u h virtualFileExtensions name containingFile (resolver w)) = None"
      by simp
    then show "self (visitUnresolved u h virtualFileExtensions containingFile
                 \<lparr> specifier = name, importPos = position \<rparr> w) = self w"
      by (auto simp: visitUnresolved_def Let_def split: prod.splits)
  qed
qed

theorem builtin_or_dependency_unresolved_witness:
  "isBuiltin sample_host (sanitizeSpecifier sample_util ''fs'')
   \<and> resolveModuleName sample_util sample_host [] ''fs'' ''/p/src/index.ts'' = (None, [])
   \<and> isInNodeModules sample_util ''../node_modules/left-pad/index.js''
   \<and> resolveModuleName sample_util sample_host [] ''../node_modules/left-pad/index.js''
        ''/p/src/index.ts'' = (None, [])
   \<and> self (visitUnresolved sample_util sample_host [] ''/p/src/index.ts''
              \<lparr> specifier = ''fs'', importPos = None \<rparr> sample_walk) = self sample_walk"
proof -
  have b: "isBuiltin sample_host (sanitizeSpecifier sample_util ''fs'')"
    by (simp add: sample_host_def sample_path_defs)
  have n: "isInNodeModules sample_util ''../node_modules/left-pad/index.js''"
    by (simp add: sample_path_defs)
  have fresh: "resolutionCache (resolver sample_walk) (cacheKey sample_util ''fs'' ''/p/src/index.ts'') = None"
    by (simp add: sample_walk_def empty_resolver_def)
  from b n fresh
    builtin_or_dependency_unresolved [of sample_host sample_util "''fs''" "[]" "''/p/src/index.ts''" sample_walk None]
    builtin_or_dependency_unresolved [of sample_host sample_util "''../node_modules/left-pad/index.js''"
       "[]" "''/p/src/index.ts''" sample_walk None]
  show ?thesis by simp
qed

section \<open>URL specifiers\<close>

lemma startsWith_append: "startsWith s (p @ q) \<Longrightarrow> startsWith s p"
proof -
  assume "startsWith s (p @ q)"
  then have "take (length (p @ q)) s = p @ q" by (simp add: startsWith_def)
  then have "take (length p) (take (length (p @ q)) s) = take (length p) (p @ q)" by simp
  then show ?thesis by (simp add: startsWith_def min_def)
qed

lemma startsWith_http: "startsWith s ''http:'' \<Longrightarrow> startsWith s ''http''"
  using startsWith_append [of s "''http''" "'':''"] by simp

lemma visitUnresolved_http: "startsWith (specifier i) ''http'' \<Longrightarrow> visitUnresolved u h v filePath i w = w"
  by (simp add: visitUnresolved_def Let_def)

lemma fold_visitUnresolved_filter:
  assumes "\<And>i. \<not> P i \<Longrightarrow> startsWith (specifier i) ''http''"
  shows "fold (visitUnresolved u h v filePath) (filter P is) w = fold (visitUnresolved u h v filePath) is w"
proof (induction "is" arbitrary: w)
  case Nil
  show ?case by simp
next
  case (Cons i "is")
  show ?case
  proof (cases "P i")
    case True
    with Cons.IH show ?thesis by simp
  next
    case False
    from assms [OF this] have "visitUnresolved u h v filePath i w = w"
      by (rule visitUnresolved_http)
    with False Cons.IH show ?thesis by simp
  qed
qed

text \<open>
  C8. An unresolved import whose specifier starts with \<open>http:\<close> is ignored: visiting it
  changes nothing (not the unresolved imports, not the external set, not the entry
  paths, not the cache), and \<open>analyzeSourceFile\<close> returns what it returns for the file
  without those imports.
\<close>

theorem http_specifier_ignored:
  "(startsWith (specifier unresolvedImport) ''http:'' \<longrightarrow>
      visitUnresolved u h v filePath unresolvedImport w = w)
   \<and> fold (visitUnresolved u h v filePath)
        (filter (\<lambda>i. \<not> startsWith (specifier i) ''http:'') unresolvedList) w
      = fold (visitUnresolved u h v filePath) unresolvedList w
   \<and> analyzeSourceFile u h v filePath s c =
       (case getImportsAndExports h filePath (filePath \<in> set (skipExportsAnalysis s)) of
          None \<Rightarrow> Inl (UnableToFind filePath)
        | Some a \<Rightarrow>
            (let w' = fold (visitUnresolved u h v filePath)
                        (filter (\<lambda>i. \<not> startsWith (specifier i) ''http:'') (unresolved a))
                        \<lparr> self = s, resolver = c, externals = external a, unresolvedImports = [] \<rparr>
             in Inr (a\<lparr> unresolved := unresolvedImports w', external := externals w' \<rparr>,
                     self w', resolver w')))"
proof (intro conjI impI)
  assume "startsWith (specifier unresolvedImport) ''http:''"
  then have "startsWith (specifier unresolvedImport) ''http''" by (rule startsWith_http)
  then show "visitUnresolved u h v filePath unresolvedImport w = w" by (rule visitUnresolved_http)
next
  have drop: "fold (visitUnresolved u h v filePath)
        (filter (\<lambda>i. \<not> startsWith (specifier i) ''http:'') xs) w0
      = fold (visitUnresolved u h v filePath) xs w0" for xs w0
    by (rule fold_visitUnresolved_filter) (simp add: startsWith_http)
  show "fold (visitUnresolved u h v filePath)
        (filter (\<lambda>i. \<not> startsWith (specifier i) ''http:'') unresolvedList) w
      = fold (visitUnresolved u h v filePath) unresolvedList w"
    by (rule drop)
  show "analyzeSourceFile u h v filePath s c =
       (case getImportsAndExports h filePath (filePath \<in> set (skipExportsAnalysis s)) of
          None \<Rightarrow> Inl (UnableToFind filePath)
        | Some a \<Rightarrow>
            (let w' = fold (visitUnresolved u h v filePath)
                        (filter (\<lambda>i. \<not> startsWith (specifier i) ''http:'') (unresolved a))
                        \<lparr> self = s, resolver = c, externals = external a, unresolvedImports = [] \<rparr>
             in Inr (a\<lparr> unresolved := unresolvedImports w', external := externals w' \<rparr>,
                     self w', resolver w')))"
    by (simp add: analyzeSourceFile_def drop Let_def split: option.splits)
qed

theorem http_specifier_ignored_witness:
  "startsWith (specifier (sample_import ''http://localhost/mod.ts'')) ''http:''
   \<and> visitUnresolved sample_util sample_host [] ''/p/src/index.ts''
       (sample_import ''http://localhost/mod.ts'') sample_walk = sample_walk
   \<and> fold (visitUnresolved sample_util sample_host [] ''/p/src/index.ts'')
        [sample_import ''./missing''] sample_walk
      = fold (visitUnresolved sample_util sample_host [] ''/p/src/index.ts'')
        [sample_import ''http://localhost/mod.ts'', sample_import ''./missing''] sample_walk"
proof -
  have p: "startsWith (specifier (sample_import ''http://localhost/mod.ts'')) ''http:''"
    by (simp add: sample_import_def startsWith_def)
  have q: "\<not> startsWith (specifier (sample_import ''./missing'')) ''http:''"
    by (simp add: sample_import_def startsWith_def)
  note inst = http_specifier_ignored [of "sample_import ''http://localhost/mod.ts''" sample_util sample_host "[]"
      "''/p/src/index.ts''" sample_walk
      "[sample_import ''http://localhost/mod.ts'', sample_import ''./missing'']" sample_principal empty_resolver]
  from inst p have one: "visitUnresolved sample_util sample_host [] ''/p/src/index.ts''
       (sample_import ''http://localhost/mod.ts'') sample_walk = sample_walk"
    by blast
  from inst have "fold (visitUnresolved sample_util sample_host [] ''/p/src/index.ts'')
        (filter (\<lambda>i. \<not> startsWith (specifier i) ''http:'')
           [sample_import ''http://localhost/mod.ts'', sample_import ''./missing'']) sample_walk
      = fold (visitUnresolved sample_util sample_host [] ''/p/src/index.ts'')
        [sample_import ''http://localhost/mod.ts'', sample_import ''./missing''] sample_walk"
    by blast
  moreover have "filter (\<lambda>i. \<not> startsWith (specifier i) ''http:'')
           [sample_import ''http://localhost/mod.ts'', sample_import ''./missing'']
        = [sample_import ''./missing'']"
    using p q by simp
  ultimately have two: "fold (visitUnresolved sample_util sample_host [] ''/p/src/index.ts'')
        [sample_import ''./missing''] sample_walk
      = fold (visitUnresolved sample_util sample_host [] ''/p/src/index.ts'')
        [sample_import ''http://localhost/mod.ts'', sample_import ''./missing''] sample_walk"
    by (simp only:)
  from p one two show ?thesis by blast
qed

section \<open>The walk over the unresolved imports\<close>

lemma addEntryPath_fields:
  "isGitIgnored (addEntryPath u p opt s) = isGitIgnored s"
  "extensions (addEntryPath u p opt s) = extensions s"
  by (simp_all add: addEntryPath_def)

lemma visitUnresolved_cases:
  obtains (http) "startsWith (specifier i) ''http''" "visitUnresolved u h v filePath i w = w"
  | (external) m c where "\<not> startsWith (specifier i) ''http''"
      "resolveModule u h v (specifier i) filePath (resolver w) = (Some m, c)"
      "isExternalLibraryImport m"
      "visitUnresolved u h v filePath i w
         = w\<lparr> resolver := c, externals := set_add (sanitizeSpecifier u (specifier i)) (externals w) \<rparr>"
  | (ignored) m c where "\<not> startsWith (specifier i) ''http''"
      "resolveModule u h v (specifier i) filePath (resolver w) = (Some m, c)"
      "\<not> isExternalLibraryImport m" "isGitIgnored (self w) (resolvedFileName m)"
      "visitUnresolved u h v filePath i w = w\<lparr> resolver := c \<rparr>"
  | (internal) m c where "\<not> startsWith (specifier i) ''http''"
      "resolveModule u h v (specifier i) filePath (resolver w) = (Some m, c)"
      "\<not> isExternalLibraryImport m" "\<not> isGitIgnored (self w) (resolvedFileName m)"
      "visitUnresolved u h v filePath i w
         = w\<lparr> resolver := c, self := addEntryPath u (resolvedFileName m) (Some True) (self w) \<rparr>"
  | (package) c where "\<not> startsWith (specifier i) ''http''"
      "resolveModule u h v (specifier i) filePath (resolver w) = (None, c)"
      "isStartsLikePackageName u (sanitizeSpecifier u (specifier i))"
      "visitUnresolved u h v filePath i w
         = w\<lparr> resolver := c, externals := set_add (sanitizeSpecifier u (specifier i)) (externals w) \<rparr>"
  | (reported) c where
      "resolveModule u h v (specifier i) filePath (resolver w) = (None, c)"
      "reportable u (self w) filePath i"
      "visitUnresolved u h v filePath i w
         = w\<lparr> resolver := c, unresolvedImports := unresolvedImports w @ [i] \<rparr>"
  | (dropped) c where "\<not> startsWith (specifier i) ''http''"
      "resolveModule u h v (specifier i) filePath (resolver w) = (None, c)"
      "\<not> isStartsLikePackageName u (sanitizeSpecifier u (specifier i))"
      "\<not> reportable u (self w) filePath i"
      "visitUnresolved u h v filePath i w = w\<lparr> resolver := c \<rparr>"
proof (cases "startsWith (specifier i) ''http''")
  case True
  then have "visitUnresolved u h v filePath i w = w" by (simp add: visitUnresolved_def Let_def)
  with True show ?thesis by (rule http)
next
  case nh: False
  obtain r c where rm: "resolveModule u h v (specifier i) filePath (resolver w) = (r, c)"
    by (cases "resolveModule u h v (specifier i) filePath (resolver w)")
  show ?thesis
  proof (cases r)
    case (Some m)
    show ?thesis
    proof (cases "isExternalLibraryImport m")
      case True
      with nh rm Some have "visitUnresolved u h v filePath i w
         = w\<lparr> resolver := c, externals := set_add (sanitizeSpecifier u (specifier i)) (externals w) \<rparr>"
        by (simp add: visitUnresolved_def Let_def)
      with nh rm Some True show ?thesis by (auto intro: external)
    next
      case ne: False
      show ?thesis
      proof (cases "isGitIgnored (self w) (resolvedFileName m)")
        case True
        with nh rm Some ne have "visitUnresolved u h v filePath i w = w\<lparr> resolver := c \<rparr>"
          by (simp add: visitUnresolved_def Let_def)
        with nh rm Some ne True show ?thesis by (auto intro: ignored)
      next
        case False
        with nh rm Some ne have "visitUnresolved u h v filePath i w
           = w\<lparr> resolver := c, self := addEntryPath u (resolvedFileName m) (Some True) (self w) \<rparr>"
          by (simp add: visitUnresolved_def Let_def)
        with nh rm Some ne False show ?thesis by (auto intro: internal)
      qed
    qed
  next
    case None
    show ?thesis
    proof (cases "isStartsLikePackageName u (sanitizeSpecifier u (specifier i))")
      case True
      with nh rm None have "visitUnresolved u h v filePath i w
         = w\<lparr> resolver := c, externals := set_add (sanitizeSpecifier u (specifier i)) (externals w) \<rparr>"
        by (simp add: visitUnresolved_def Let_def)
      with nh rm None True show ?thesis by (auto intro: package)
    next
      case np: False
      show ?thesis
      proof (cases "reportable u (self w) filePath i")
        case True
        with nh rm None np have "visitUnresolved u h v filePath i w
           = w\<lparr> resolver := c, unresolvedImports := unresolvedImports w @ [i] \<rparr>"
          by (auto simp: visitUnresolved_def reportable_def Let_def)
        with rm None True show ?thesis by (auto intro: reported)
      next
        case False
        with nh rm None np have "visitUnresolved u h v filePath i w = w\<lparr> resolver := c \<rparr>"
          by (auto simp: visitUnresolved_def reportable_def Let_def)
        with nh rm None np False show ?thesis by (auto intro: dropped)
      qed
    qed
  qed
qed

lemma visitUnresolved_fields:
  "isGitIgnored (self (visitUnresolved u h v filePath i w)) = isGitIgnored (self w)"
  "extensions (self (visitUnresolved u h v filePath i w)) = extensions (self w)"
  by (rule visitUnresolved_cases [where i=i and u=u and h=h and v=v and filePath=filePath and w=w];
      simp add: addEntryPath_fields)+

lemma visitUnresolved_reported:
  assumes "j \<in> set (unresolvedImports (visitUnresolved u h v filePath i w))"
  shows "j \<in> set (unresolvedImports w) \<or> (j = i \<and> reportable u (self w) filePath i)"
  by (rule visitUnresolved_cases [where i=i and u=u and h=h and v=v and filePath=filePath and w=w])
     (use assms in auto)

lemma reportable_cong: "isGitIgnored s = isGitIgnored s' \<Longrightarrow> reportable u s filePath i = reportable u s' filePath i"
  by (simp add: reportable_def)

lemma fold_visitUnresolved_reported:
  "j \<in> set (unresolvedImports (fold (visitUnresolved u h v filePath) is w)) \<Longrightarrow>
   j \<in> set (unresolvedImports w) \<or> (j \<in> set is \<and> reportable u (self w) filePath j)"
proof (induction "is" arbitrary: w)
  case Nil
  then show ?case by simp
next
  case (Cons i "is")
  let ?w = "visitUnresolved u h v filePath i w"
  from Cons.prems have "j \<in> set (unresolvedImports (fold (visitUnresolved u h v filePath) is ?w))"
    by simp
  from Cons.IH [OF this]
  have "j \<in> set (unresolvedImports ?w) \<or> (j \<in> set is \<and> reportable u (self ?w) filePath j)" .
  moreover have "reportable u (self ?w) filePath j = reportable u (self w) filePath j"
    by (rule reportable_cong) (rule visitUnresolved_fields)
  ultimately show ?case using visitUnresolved_reported [of j u h v filePath i w] by auto
qed

lemma analyzeSourceFile_reported:
  assumes "analyzeSourceFile u h v filePath s c = Inr (a, s', c')"
    and "j \<in> set (unresolved a)"
  shows "reportable u s filePath j"
proof -
  from assms(1) obtain a0 where a: "a = a0\<lparr> unresolved := unresolvedImports (fold (visitUnresolved u h v filePath) (unresolved a0)
                        \<lparr> self = s, resolver = c, externals = external a0, unresolvedImports = [] \<rparr>),
        external := externals (fold (visitUnresolved u h v filePath) (unresolved a0)
                        \<lparr> self = s, resolver = c, externals = external a0, unresolvedImports = [] \<rparr>) \<rparr>"
    by (auto simp: analyzeSourceFile_def Let_def split: option.splits)
  with assms(2) have "j \<in> set (unresolvedImports (fold (visitUnresolved u h v filePath) (unresolved a0)
                        \<lparr> self = s, resolver = c, externals = external a0, unresolvedImports = [] \<rparr>))"
    by simp
  from fold_visitUnresolved_reported [OF this] show ?thesis by simp
qed

section \<open>Internal modules found by the walk\<close>

lemma visitUnresolved_ignored_path:
  assumes "isGitIgnored (self w) p"
  shows "(p \<in> set (entryPaths (self (visitUnresolved u h v filePath i w))) \<longleftrightarrow> p \<in> set (entryPaths (self w)))
       \<and> (p \<in> set (projectPaths (self (visitUnresolved u h v filePath i w))) \<longleftrightarrow> p \<in> set (projectPaths (self w)))
       \<and> (p \<in> set (skipExportsAnalysis (self (visitUnresolved u h v filePath i w)))
            \<longleftrightarrow> p \<in> set (skipExportsAnalysis (self w)))"
  by (rule visitUnresolved_cases [where i=i and u=u and h=h and v=v and filePath=filePath and w=w])
     (use assms in \<open>auto simp: addEntryPath_def set_set_add\<close>)

lemma fold_visitUnresolved_ignored_path:
  "isGitIgnored (self w) p \<Longrightarrow>
   (p \<in> set (entryPaths (self (fold (visitUnresolved u h v filePath) is w))) \<longleftrightarrow> p \<in> set (entryPaths (self w)))
   \<and> (p \<in> set (projectPaths (self (fold (visitUnresolved u h v filePath) is w))) \<longleftrightarrow> p \<in> set (projectPaths (self w)))
   \<and> (p \<in> set (skipExportsAnalysis (self (fold (visitUnresolved u h v filePath) is w)))
        \<longleftrightarrow> p \<in> set (skipExportsAnalysis (self w)))"
proof (induction "is" arbitrary: w)
  case Nil
  show ?case by simp
next
  case (Cons i "is")
  let ?w = "visitUnresolved u h v filePath i w"
  from Cons.prems have "isGitIgnored (self ?w) p" by (simp add: visitUnresolved_fields)
  from Cons.IH [OF this] visitUnresolved_ignored_path [OF Cons.prems, of u h v filePath i]
  show ?case by simp
qed

text \<open>
  C6, as the code has it. Take an unresolved import whose specifier does not start
  with \<open>http\<close> and that \<open>resolveModule\<close> resolves to a module that is not an external
  library import. If \<open>isGitIgnored\<close> holds of the resolved file name, the visit changes
  the cache only, and over the whole walk an ignored path is in the entry paths, the
  project paths and \<open>skipExportsAnalysis\<close> exactly if it was before. If the file name is
  not ignored, it goes through \<open>addEntryPath\<close> with \<open>skipExportsAnalysis: true\<close>: when it
  is outside \<open>node_modules\<close> and has an accepted extension, it is afterwards in
  \<open>entryPaths\<close>, \<open>projectPaths\<close> and \<open>skipExportsAnalysis\<close>; otherwise the principal is
  unchanged.
\<close>

theorem discovered_internal_module:
  assumes "\<not> startsWith (specifier i) ''http''"
    and "resolveModule u h v (specifier i) filePath (resolver w) = (Some m, c)"
    and "\<not> isExternalLibraryImport m"
  shows "(isGitIgnored (self w) (resolvedFileName m) \<longrightarrow>
            visitUnresolved u h v filePath i w = w\<lparr> resolver := c \<rparr>)
    \<and> (isGitIgnored (self w) p \<longrightarrow>
          (p \<in> set (entryPaths (self (fold (visitUnresolved u h v filePath) unresolvedList w)))
             \<longleftrightarrow> p \<in> set (entryPaths (self w)))
        \<and> (p \<in> set (projectPaths (self (fold (visitUnresolved u h v filePath) unresolvedList w)))
             \<longleftrightarrow> p \<in> set (projectPaths (self w)))
        \<and> (p \<in> set (skipExportsAnalysis (self (fold (visitUnresolved u h v filePath) unresolvedList w)))
             \<longleftrightarrow> p \<in> set (skipExportsAnalysis (self w))))
    \<and> (\<not> isGitIgnored (self w) (resolvedFileName m) \<longrightarrow>
          visitUnresolved u h v filePath i w
            = w\<lparr> resolver := c, self := addEntryPath u (resolvedFileName m) (Some True) (self w) \<rparr>)
    \<and> (\<not> isGitIgnored (self w) (resolvedFileName m) \<and> \<not> isInNodeModules u (resolvedFileName m)
        \<and> hasAcceptedExtension u (self w) (resolvedFileName m) \<longrightarrow>
          resolvedFileName m \<in> set (entryPaths (self (visitUnresolved u h v filePath i w)))
        \<and> resolvedFileName m \<in> set (projectPaths (self (visitUnresolved u h v filePath i w)))
        \<and> resolvedFileName m \<in> set (skipExportsAnalysis (self (visitUnresolved u h v filePath i w))))
    \<and> (\<not> isGitIgnored (self w) (resolvedFileName m)
        \<and> (isInNodeModules u (resolvedFileName m) \<or> \<not> hasAcceptedExtension u (self w) (resolvedFileName m)) \<longrightarrow>
          self (visitUnresolved u h v filePath i w) = self w)"
proof -
  have ign: "visitUnresolved u h v filePath i w = w\<lparr> resolver := c \<rparr>"
    if "isGitIgnored (self w) (resolvedFileName m)"
    using assms that by (simp add: visitUnresolved_def Let_def)
  have add: "visitUnresolved u h v filePath i w
            = w\<lparr> resolver := c, self := addEntryPath u (resolvedFileName m) (Some True) (self w) \<rparr>"
    if "\<not> isGitIgnored (self w) (resolvedFileName m)"
    using assms that by (simp add: visitUnresolved_def Let_def)
  have acc: "resolvedFileName m \<in> set (entryPaths (self (visitUnresolved u h v filePath i w)))
        \<and> resolvedFileName m \<in> set (projectPaths (self (visitUnresolved u h v filePath i w)))
        \<and> resolvedFileName m \<in> set (skipExportsAnalysis (self (visitUnresolved u h v filePath i w)))"
    if "\<not> isGitIgnored (self w) (resolvedFileName m)" "\<not> isInNodeModules u (resolvedFileName m)"
       "hasAcceptedExtension u (self w) (resolvedFileName m)"
    using add [OF that(1)] that(2,3) by (simp add: addEntryPath_def set_set_add)
  have rej: "self (visitUnresolved u h v filePath i w) = self w"
    if "\<not> isGitIgnored (self w) (resolvedFileName m)"
       "isInNodeModules u (resolvedFileName m) \<or> \<not> hasAcceptedExtension u (self w) (resolvedFileName m)"
    using add [OF that(1)] that(2) by (auto simp: addEntryPath_def)
  from ign add acc rej fold_visitUnresolved_ignored_path [of w p u h v filePath unresolvedList]
  show ?thesis by blast
qed

lemma sample_resolve_a:
  "resolveModule sample_util sample_host [] ''./a'' ''/p/src/index.ts'' empty_resolver
   = (Some \<lparr> resolvedFileName = ''/p/src/a.ts'', extension = ''.ts'',
             isExternalLibraryImport = False, resolvedUsingTsExtension = Some False \<rparr>,
      \<lparr> resolutionCache =
          [''/p/src/a'' \<mapsto> Some \<lparr> resolvedFileName = ''/p/src/a.ts'', extension = ''.ts'',
               isExternalLibraryImport = False, resolvedUsingTsExtension = Some False \<rparr>],
        invocations = [(''./a'', ''/p/src/index.ts'')],
        probes = [ResolveSync ''./a'' ''/p/src''] \<rparr>)"
  by (simp add: resolver_defs sample_host_defs sample_path_defs empty_resolver_def Let_def)

lemma sample_resolve_generated:
  "resolveModule sample_util sample_host [] ''./generated/client'' ''/p/src/index.ts'' empty_resolver
   = (Some \<lparr> resolvedFileName = ''/p/src/generated/client.ts'', extension = ''.ts'',
             isExternalLibraryImport = False, resolvedUsingTsExtension = Some False \<rparr>,
      \<lparr> resolutionCache =
          [''/p/src/generated/client'' \<mapsto> Some \<lparr> resolvedFileName = ''/p/src/generated/client.ts'',
               extension = ''.ts'',
               isExternalLibraryImport = False, resolvedUsingTsExtension = Some False \<rparr>],
        invocations = [(''./generated/client'', ''/p/src/index.ts'')],
        probes = [ResolveSync ''./generated/client'' ''/p/src''] \<rparr>)"
  by (simp add: resolver_defs sample_host_defs sample_path_defs empty_resolver_def Let_def)

lemma sample_resolve_styles:
  "resolveModule sample_util sample_host [] ''./styles.css'' ''/p/src/index.ts'' empty_resolver
   = (Some \<lparr> resolvedFileName = ''/p/src/styles.css'', extension = ''.css'',
             isExternalLibraryImport = False, resolvedUsingTsExtension = Some False \<rparr>,
      \<lparr> resolutionCache =
          [''/p/src/styles.css'' \<mapsto> Some \<lparr> resolvedFileName = ''/p/src/styles.css'', extension = ''.css'',
               isExternalLibraryImport = False, resolvedUsingTsExtension = Some False \<rparr>],
        invocations = [(''./styles.css'', ''/p/src/index.ts'')],
        probes = [ResolveSync ''./styles.css'' ''/p/src''] \<rparr>)"
  by (simp add: resolver_defs sample_host_defs sample_path_defs empty_resolver_def Let_def)

lemma sample_walk_fields:
  "resolver sample_walk = empty_resolver" "self sample_walk = sample_principal"
  "externals sample_walk = []" "unresolvedImports sample_walk = []"
  by (simp_all add: sample_walk_def)

lemma sample_principal_fields:
  "entryPaths sample_principal = []" "projectPaths sample_principal = []"
  "skipExportsAnalysis sample_principal = []"
  "isGitIgnored sample_principal = (\<lambda>p. startsWith p ''/p/src/generated/'')"
  "extensions sample_principal = [''.js'', ''.mjs'', ''.cjs'', ''.jsx'', ''.ts'', ''.tsx'', ''.mts'', ''.cts'']"
  by (simp_all add: sample_principal_def new_principal_def sample_util_def set_add_def)

theorem discovered_internal_module_witness:
  "\<not> startsWith (specifier (sample_import ''./a'')) ''http''
   \<and> fst (resolveModule sample_util sample_host [] (specifier (sample_import ''./a'')) ''/p/src/index.ts''
           (resolver sample_walk))
       = Some \<lparr> resolvedFileName = ''/p/src/a.ts'', extension = ''.ts'',
             isExternalLibraryImport = False, resolvedUsingTsExtension = Some False \<rparr>
   \<and> \<not> isGitIgnored (self sample_walk) ''/p/src/a.ts''
   \<and> ''/p/src/a.ts'' \<in> set (entryPaths (self (visitUnresolved sample_util sample_host []
         ''/p/src/index.ts'' (sample_import ''./a'') sample_walk)))
   \<and> ''/p/src/a.ts'' \<in> set (projectPaths (self (visitUnresolved sample_util sample_host []
         ''/p/src/index.ts'' (sample_import ''./a'') sample_walk)))
   \<and> ''/p/src/a.ts'' \<in> set (skipExportsAnalysis (self (visitUnresolved sample_util sample_host []
         ''/p/src/index.ts'' (sample_import ''./a'') sample_walk)))
   \<and> isGitIgnored (self sample_walk) ''/p/src/generated/client.ts''
   \<and> self (visitUnresolved sample_util sample_host [] ''/p/src/index.ts''
         (sample_import ''./generated/client'') sample_walk) = self sample_walk"
proof -
  have nh: "\<not> startsWith (specifier (sample_import ''./a'')) ''http''"
    "\<not> startsWith (specifier (sample_import ''./generated/client'')) ''http''"
    by (simp_all add: sample_import_def startsWith_def)
  have ra: "resolveModule sample_util sample_host [] (specifier (sample_import ''./a'')) ''/p/src/index.ts''
           (resolver sample_walk)
       = (Some \<lparr> resolvedFileName = ''/p/src/a.ts'', extension = ''.ts'',
             isExternalLibraryImport = False, resolvedUsingTsExtension = Some False \<rparr>,
      \<lparr> resolutionCache =
          [''/p/src/a'' \<mapsto> Some \<lparr> resolvedFileName = ''/p/src/a.ts'', extension = ''.ts'',
               isExternalLibraryImport = False, resolvedUsingTsExtension = Some False \<rparr>],
        invocations = [(''./a'', ''/p/src/index.ts'')],
        probes = [ResolveSync ''./a'' ''/p/src''] \<rparr>)"
    by (simp add: sample_import_def sample_walk_fields sample_resolve_a)
  have rg: "resolveModule sample_util sample_host [] (specifier (sample_import ''./generated/client''))
           ''/p/src/index.ts'' (resolver sample_walk)
       = (Some \<lparr> resolvedFileName = ''/p/src/generated/client.ts'', extension = ''.ts'',
             isExternalLibraryImport = False, resolvedUsingTsExtension = Some False \<rparr>,
      \<lparr> resolutionCache =
          [''/p/src/generated/client'' \<mapsto> Some \<lparr> resolvedFileName = ''/p/src/generated/client.ts'',
               extension = ''.ts'',
               isExternalLibraryImport = False, resolvedUsingTsExtension = Some False \<rparr>],
        invocations = [(''./generated/client'', ''/p/src/index.ts'')],
        probes = [ResolveSync ''./generated/client'' ''/p/src''] \<rparr>)"
    by (simp add: sample_import_def sample_walk_fields sample_resolve_generated)
  have ia: "\<not> isGitIgnored (self sample_walk) ''/p/src/a.ts''"
    and ig: "isGitIgnored (self sample_walk) ''/p/src/generated/client.ts''"
    by (simp_all add: sample_walk_fields sample_principal_fields startsWith_def)
  have ok: "\<not> isInNodeModules sample_util ''/p/src/a.ts''"
    "hasAcceptedExtension sample_util (self sample_walk) ''/p/src/a.ts''"
    by (simp_all add: hasAcceptedExtension_def sample_walk_fields sample_principal_fields sample_path_defs)
  have ne: "\<not> isExternalLibraryImport \<lparr> resolvedFileName = ''/p/src/a.ts'', extension = ''.ts'',
             isExternalLibraryImport = False, resolvedUsingTsExtension = Some False \<rparr>"
    "\<not> isExternalLibraryImport \<lparr> resolvedFileName = ''/p/src/generated/client.ts'', extension = ''.ts'',
             isExternalLibraryImport = False, resolvedUsingTsExtension = Some False \<rparr>"
    by simp_all
  from discovered_internal_module [OF nh(1) ra ne(1), of "[]" "[]",
      simplified ResolvedModuleFull.select_convs] ia ok
  have a: "''/p/src/a.ts'' \<in> set (entryPaths (self (visitUnresolved sample_util sample_host []
         ''/p/src/index.ts'' (sample_import ''./a'') sample_walk)))
   \<and> ''/p/src/a.ts'' \<in> set (projectPaths (self (visitUnresolved sample_util sample_host []
         ''/p/src/index.ts'' (sample_import ''./a'') sample_walk)))
   \<and> ''/p/src/a.ts'' \<in> set (skipExportsAnalysis (self (visitUnresolved sample_util sample_host []
         ''/p/src/index.ts'' (sample_import ''./a'') sample_walk)))"
    by blast
  from discovered_internal_module [OF nh(2) rg ne(2), of "[]" "[]",
      simplified ResolvedModuleFull.select_convs] ig
  have "visitUnresolved sample_util sample_host [] ''/p/src/index.ts''
         (sample_import ''./generated/client'') sample_walk
      = sample_walk\<lparr> resolver := \<lparr> resolutionCache =
          [''/p/src/generated/client'' \<mapsto> Some \<lparr> resolvedFileName = ''/p/src/generated/client.ts'',
               extension = ''.ts'',
               isExternalLibraryImport = False, resolvedUsingTsExtension = Some False \<rparr>],
        invocations = [(''./generated/client'', ''/p/src/index.ts'')],
        probes = [ResolveSync ''./generated/client'' ''/p/src''] \<rparr> \<rparr>"
    by blast
  then have g: "self (visitUnresolved sample_util sample_host [] ''/p/src/index.ts''
         (sample_import ''./generated/client'') sample_walk) = self sample_walk"
    by simp
  from nh ra ia ig a g show ?thesis by simp
qed

text \<open>The claim as it stands fails on \<open>import './styles.css'\<close>: the file exists, is
  internal and is not ignored, and it is not added as an entry path, since \<open>.css\<close> is
  not an accepted extension.\<close>

theorem discovered_internal_module_counterexample:
  "fst (resolveModule sample_util sample_host [] ''./styles.css'' ''/p/src/index.ts'' (resolver sample_walk))
     = Some \<lparr> resolvedFileName = ''/p/src/styles.css'', extension = ''.css'',
             isExternalLibraryImport = False, resolvedUsingTsExtension = Some False \<rparr>
   \<and> \<not> isGitIgnored (self sample_walk) ''/p/src/styles.css''
   \<and> ''/p/src/styles.css'' \<notin> set (entryPaths (self (visitUnresolved sample_util sample_host []
         ''/p/src/index.ts'' (sample_import ''./styles.css'') sample_walk)))
   \<and> ''/p/src/styles.css'' \<notin> set (skipExportsAnalysis (self (visitUnresolved sample_util sample_host []
         ''/p/src/index.ts'' (sample_import ''./styles.css'') sample_walk)))"
proof -
  have visit: "visitUnresolved sample_util sample_host [] ''/p/src/index.ts''
                 (sample_import ''./styles.css'') sample_walk
      = sample_walk\<lparr> resolver := snd (resolveModule sample_util sample_host [] ''./styles.css''
                                       ''/p/src/index.ts'' empty_resolver),
                     self := addEntryPath sample_util ''/p/src/styles.css'' (Some True) sample_principal \<rparr>"
    by (simp add: visitUnresolved_def sample_import_def sample_walk_fields sample_resolve_styles
        sample_principal_fields(4) startsWith_def Let_def)
  have rejected: "addEntryPath sample_util ''/p/src/styles.css'' (Some True) sample_principal
      = sample_principal"
    by (simp add: addEntryPath_def hasAcceptedExtension_def sample_principal_fields sample_path_defs)
  have ignored: "\<not> isGitIgnored (self sample_walk) ''/p/src/styles.css''"
    by (simp add: sample_walk_fields sample_principal_fields startsWith_def)
  from visit rejected ignored show ?thesis
    by (simp add: sample_walk_fields sample_resolve_styles sample_principal_fields)
qed

section \<open>Imports reported as unresolved\<close>

lemma visitUnresolved_not_reportable:
  assumes "\<not> reportable u (self w) filePath i"
  shows "unresolvedImports (visitUnresolved u h v filePath i w) = unresolvedImports w"
  by (rule visitUnresolved_cases [where i=i and u=u and h=h and v=v and filePath=filePath and w=w])
     (use assms in auto)

lemma visitUnresolved_reportable:
  assumes "fst (resolveModule u h v (specifier i) filePath (resolver w)) = None"
    and "reportable u (self w) filePath i"
  shows "unresolvedImports (visitUnresolved u h v filePath i w) = unresolvedImports w @ [i]"
    and "externals (visitUnresolved u h v filePath i w) = externals w"
    and "self (visitUnresolved u h v filePath i w) = self w"
  by (rule visitUnresolved_cases [where i=i and u=u and h=h and v=v and filePath=filePath and w=w];
      use assms in \<open>auto simp: reportable_def Let_def\<close>)+


lemma sample_unresolved:
  "fst (resolveModule sample_util sample_host [] ''./missing'' ''/p/src/index.ts'' empty_resolver) = None"
  "fst (resolveModule sample_util sample_host [] ''./logo.png'' ''/p/src/index.ts'' empty_resolver) = None"
  "fst (resolveModule sample_util sample_host [] ''not-exist'' ''/p/src/index.ts'' empty_resolver) = None"
  "fst (resolveModule sample_util sample_host [] ''./generated/stub'' ''/p/src/index.ts'' empty_resolver) = None"
  "fst (resolveModule sample_util sample_host [] ''http-proxy'' ''/p/src/index.ts'' empty_resolver) = None"
  "fst (resolveModule sample_util sample_host [] ''https://deno.land/std/path/mod.ts''
         ''/p/src/index.ts'' empty_resolver) = None"
  by (simp_all add: resolver_defs sample_host_defs sample_path_defs empty_resolver_def Let_def)

lemma sample_visit_not_exist:
  "unresolvedImports (visitUnresolved sample_util sample_host [] ''/p/src/index.ts''
      (sample_import ''not-exist'') sample_walk) = []"
  "externals (visitUnresolved sample_util sample_host [] ''/p/src/index.ts''
      (sample_import ''not-exist'') sample_walk) = [''not-exist'']"
  by (simp_all add: sample_visit_defs)

lemma sample_visit_stub:
  "unresolvedImports (visitUnresolved sample_util sample_host [] ''/p/src/index.ts''
      (sample_import ''./generated/stub'') sample_walk) = []"
  by (simp_all add: sample_visit_defs)


lemma sample_specifier_facts:
  "extname sample_util (sanitizeSpecifier sample_util ''not-exist'') = []"
  "extname sample_util (sanitizeSpecifier sample_util ''./generated/stub'') = []"
  "extname sample_util (sanitizeSpecifier sample_util ''./missing'') = []"
  "extname sample_util (sanitizeSpecifier sample_util ''./logo.png'') = ''.png''"
  "isStartsLikePackageName sample_util (sanitizeSpecifier sample_util ''not-exist'')"
  "isStartsLikePackageName sample_util (sanitizeSpecifier sample_util ''http-proxy'')"
  "isStartsLikePackageName sample_util (sanitizeSpecifier sample_util ''https://deno.land/std/path/mod.ts'')"
  "isStartsLikePackageName sample_util ''https''"
  "isStartsLikePackageName sample_util ''http-proxy''"
  "\<not> isStartsLikePackageName sample_util (sanitizeSpecifier sample_util ''./missing'')"
  "\<not> isStartsLikePackageName sample_util (sanitizeSpecifier sample_util ''./generated/stub'')"
  "sanitizeSpecifier sample_util ''http-proxy'' = ''http-proxy''"
  "sanitizeSpecifier sample_util ''https://deno.land/std/path/mod.ts'' = ''https''"
  "join sample_util (dirname sample_util ''/p/src/index.ts'') (sanitizeSpecifier sample_util ''./missing'')
     = ''/p/src/missing''"
  "join sample_util (dirname sample_util ''/p/src/index.ts'') (sanitizeSpecifier sample_util ''./generated/stub'')
     = ''/p/src/generated/stub''"
  by (simp_all add: sample_path_defs)

text \<open>
  C7, as the code has it. An import whose sanitized specifier has an extension of
  the foreign set is never added to the reported unresolved imports, by the visit or
  by \<open>analyzeSourceFile\<close> as a whole. An import without an extension whose resolution
  fails is added to them when its specifier does not start with \<open>http\<close>, its sanitized
  form does not start like a package name and the path it would have beside the
  importing file is not ignored.
\<close>

theorem foreign_extension_not_reported:
  "(extname u (sanitizeSpecifier u (specifier i)) \<noteq> []
      \<and> extname u (sanitizeSpecifier u (specifier i)) \<in> set (FOREIGN_FILE_EXTENSIONS u) \<longrightarrow>
      unresolvedImports (visitUnresolved u h v filePath i w) = unresolvedImports w)
   \<and> (analyzeSourceFile u h v filePath s c = Inr (a, s', c') \<and> j \<in> set (unresolved a) \<longrightarrow>
        extname u (sanitizeSpecifier u (specifier j)) = []
        \<or> extname u (sanitizeSpecifier u (specifier j)) \<notin> set (FOREIGN_FILE_EXTENSIONS u))
   \<and> (\<not> startsWith (specifier i) ''http''
      \<and> fst (resolveModule u h v (specifier i) filePath (resolver w)) = None
      \<and> extname u (sanitizeSpecifier u (specifier i)) = []
      \<and> \<not> isStartsLikePackageName u (sanitizeSpecifier u (specifier i))
      \<and> \<not> isGitIgnored (self w) (join u (dirname u filePath) (sanitizeSpecifier u (specifier i))) \<longrightarrow>
      unresolvedImports (visitUnresolved u h v filePath i w) = unresolvedImports w @ [i])"
proof (intro conjI impI)
  assume "extname u (sanitizeSpecifier u (specifier i)) \<noteq> []
      \<and> extname u (sanitizeSpecifier u (specifier i)) \<in> set (FOREIGN_FILE_EXTENSIONS u)"
  then have "\<not> reportable u (self w) filePath i" by (simp add: reportable_def Let_def)
  then show "unresolvedImports (visitUnresolved u h v filePath i w) = unresolvedImports w"
    by (rule visitUnresolved_not_reportable)
next
  assume "analyzeSourceFile u h v filePath s c = Inr (a, s', c') \<and> j \<in> set (unresolved a)"
  then have "reportable u s filePath j" by (auto intro: analyzeSourceFile_reported)
  then show "extname u (sanitizeSpecifier u (specifier j)) = []
        \<or> extname u (sanitizeSpecifier u (specifier j)) \<notin> set (FOREIGN_FILE_EXTENSIONS u)"
    by (auto simp: reportable_def Let_def)
next
  assume a: "\<not> startsWith (specifier i) ''http''
      \<and> fst (resolveModule u h v (specifier i) filePath (resolver w)) = None
      \<and> extname u (sanitizeSpecifier u (specifier i)) = []
      \<and> \<not> isStartsLikePackageName u (sanitizeSpecifier u (specifier i))
      \<and> \<not> isGitIgnored (self w) (join u (dirname u filePath) (sanitizeSpecifier u (specifier i)))"
  then have "reportable u (self w) filePath i" by (simp add: reportable_def Let_def)
  with a show "unresolvedImports (visitUnresolved u h v filePath i w) = unresolvedImports w @ [i]"
    by (simp add: visitUnresolved_reportable)
qed

theorem foreign_extension_not_reported_witness:
  "extname sample_util (sanitizeSpecifier sample_util (specifier (sample_import ''./logo.png''))) = ''.png''
   \<and> ''.png'' \<in> set (FOREIGN_FILE_EXTENSIONS sample_util)
   \<and> unresolvedImports (visitUnresolved sample_util sample_host [] ''/p/src/index.ts''
         (sample_import ''./logo.png'') sample_walk) = []
   \<and> fst (resolveModule sample_util sample_host [] (specifier (sample_import ''./missing''))
           ''/p/src/index.ts'' (resolver sample_walk)) = None
   \<and> extname sample_util (sanitizeSpecifier sample_util (specifier (sample_import ''./missing''))) = []
   \<and> unresolvedImports (visitUnresolved sample_util sample_host [] ''/p/src/index.ts''
         (sample_import ''./missing'') sample_walk) = [sample_import ''./missing'']"
proof -
  have png: "extname sample_util (sanitizeSpecifier sample_util (specifier (sample_import ''./logo.png''))) = ''.png''"
    "''.png'' \<in> set (FOREIGN_FILE_EXTENSIONS sample_util)"
    by (simp_all add: sample_import_def sample_specifier_facts) (simp add: sample_util_def)
  have missing: "\<not> startsWith (specifier (sample_import ''./missing'')) ''http''"
    "fst (resolveModule sample_util sample_host [] (specifier (sample_import ''./missing''))
           ''/p/src/index.ts'' (resolver sample_walk)) = None"
    "extname sample_util (sanitizeSpecifier sample_util (specifier (sample_import ''./missing''))) = []"
    "\<not> isStartsLikePackageName sample_util (sanitizeSpecifier sample_util (specifier (sample_import ''./missing'')))"
    "\<not> isGitIgnored (self sample_walk) (join sample_util (dirname sample_util ''/p/src/index.ts'')
          (sanitizeSpecifier sample_util (specifier (sample_import ''./missing''))))"
    by (simp_all add: sample_import_def sample_specifier_facts sample_unresolved sample_walk_fields
        sample_principal_fields startsWith_def)
  note one = foreign_extension_not_reported [where u=sample_util and h=sample_host and v="[]"
      and filePath="''/p/src/index.ts''" and w=sample_walk and i="sample_import ''./logo.png''",
      THEN conjunct1]
  note three = foreign_extension_not_reported [where u=sample_util and h=sample_host and v="[]"
      and filePath="''/p/src/index.ts''" and w=sample_walk and i="sample_import ''./missing''",
      THEN conjunct2, THEN conjunct2]
  from one png have "unresolvedImports (visitUnresolved sample_util sample_host [] ''/p/src/index.ts''
         (sample_import ''./logo.png'') sample_walk) = []"
    by (simp add: sample_walk_fields)
  moreover from three missing
  have "unresolvedImports (visitUnresolved sample_util sample_host [] ''/p/src/index.ts''
         (sample_import ''./missing'') sample_walk) = [sample_import ''./missing'']"
    by (simp add: sample_walk_fields)
  ultimately show ?thesis using png missing by simp
qed

text \<open>The second half of the claim as it stands fails on \<open>import 'not-exist'\<close>, which
  has no extension, fails every resolution step and is put into the external set,
  and on \<open>import './generated/stub'\<close>, whose path is ignored: neither is reported.\<close>

theorem foreign_extension_not_reported_counterexample:
  "fst (resolveModule sample_util sample_host [] ''not-exist'' ''/p/src/index.ts'' (resolver sample_walk)) = None
   \<and> extname sample_util (sanitizeSpecifier sample_util ''not-exist'') = []
   \<and> unresolvedImports (visitUnresolved sample_util sample_host [] ''/p/src/index.ts''
        (sample_import ''not-exist'') sample_walk) = []
   \<and> externals (visitUnresolved sample_util sample_host [] ''/p/src/index.ts''
        (sample_import ''not-exist'') sample_walk) = [''not-exist'']
   \<and> fst (resolveModule sample_util sample_host [] ''./generated/stub'' ''/p/src/index.ts''
           (resolver sample_walk)) = None
   \<and> extname sample_util (sanitizeSpecifier sample_util ''./generated/stub'') = []
   \<and> isGitIgnored (self sample_walk) ''/p/src/generated/stub''
   \<and> unresolvedImports (visitUnresolved sample_util sample_host [] ''/p/src/index.ts''
        (sample_import ''./generated/stub'') sample_walk) = []"
  by (simp add: sample_walk_fields sample_unresolved sample_specifier_facts sample_visit_not_exist
      sample_visit_stub sample_principal_fields startsWith_def)




section \<open>Declaration files\<close>

lemma resolveModuleName_compiler:
  assumes "\<not> isBuiltin h (sanitizeSpecifier u name)" and "\<not> isInNodeModules u name"
    and "resolve_sync h (sanitizeSpecifier u name) (dirname u containingFile)
           (DEFAULT_EXTENSIONS u @ v) = None"
  shows "resolveModuleName u h v name containingFile
     = (fst (resolveWithCompiler u h v (sanitizeSpecifier u name) containingFile),
        ResolveSync (sanitizeSpecifier u name) (dirname u containingFile)
          # snd (resolveWithCompiler u h v (sanitizeSpecifier u name) containingFile))"
  using assms by (simp add: resolveModuleName_def Let_def case_prod_unfold)

lemma resolveWithCompiler_declaration:
  assumes "ts_resolveModuleName h TsSys spec containingFile = Some m"
    and "isDeclarationFileExtension u (extension m)" and "isInternal u (resolvedFileName m)"
  shows "resolveWithCompiler u h v spec containingFile
     = (fst (implementationFile u h v m containingFile),
        TsResolve TsSys spec containingFile # snd (implementationFile u h v m containingFile))"
  using assms by (simp add: resolveWithCompiler_def Let_def case_prod_unfold)

lemma resolveModuleName_declaration:
  assumes "\<not> isBuiltin h (sanitizeSpecifier u name)" and "\<not> isInNodeModules u name"
    and "resolve_sync h (sanitizeSpecifier u name) (dirname u containingFile)
           (DEFAULT_EXTENSIONS u @ v) = None"
    and "ts_resolveModuleName h TsSys (sanitizeSpecifier u name) containingFile = Some m"
    and "isDeclarationFileExtension u (extension m)" and "isInternal u (resolvedFileName m)"
  shows "resolveModuleName u h v name containingFile
     = (fst (implementationFile u h v m containingFile),
        ResolveSync (sanitizeSpecifier u name) (dirname u containingFile)
          # TsResolve TsSys (sanitizeSpecifier u name) containingFile
          # snd (implementationFile u h v m containingFile))"
  using resolveModuleName_compiler [OF assms(1-3)] resolveWithCompiler_declaration [OF assms(4-6)]
  by simp

lemma implementationFile_probe:
  assumes "extension m \<noteq> ''.d.mts''" and "extension m \<noteq> ''.d.cts''"
    and "\<not> (extname u (replaceSuffix ''.d.ts'' [] (resolvedFileName m)) \<noteq> []
            \<and> extname u (replaceSuffix ''.d.ts'' [] (resolvedFileName m)) \<in> set v)"
  shows "fst (implementationFile u h v m containingFile)
     = (let base = replaceSuffix ''.d.ts'' [] (resolvedFileName m);
            js = fileExists_path u (base @ ''.js'') containingFile;
            jsx = fileExists_path u (base @ ''.jsx'') containingFile
        in if existsSync h js then
             Some \<lparr> resolvedFileName = js, extension = extname u (base @ ''.js''),
                    isExternalLibraryImport = False, resolvedUsingTsExtension = Some False \<rparr>
           else if existsSync h jsx then
             Some \<lparr> resolvedFileName = jsx, extension = extname u (base @ ''.jsx''),
                    isExternalLibraryImport = False, resolvedUsingTsExtension = Some False \<rparr>
           else Some m)"
  using assms by (auto simp: implementationFile_def fileExists_def Let_def)

text \<open>
  C2, as the code has it. Take a specifier that is neither built-in nor inside
  \<open>node_modules\<close>, that \<open>resolve.sync\<close> fails to resolve and that the compiler resolves
  to an internal declaration file. For \<open>.d.mts\<close> (\<open>.d.cts\<close>) the result is the file name
  with the suffix replaced by \<open>.mjs\<close> (\<open>.cjs\<close>), and the file system is not asked
  whether that file exists. For any other declaration extension the suffix \<open>.d.ts\<close> is
  stripped; if what is left has a registered virtual extension, the result is its
  real file path; otherwise the result is the first of \<open>base.js\<close>, \<open>base.jsx\<close> that
  exists, and the declaration file itself when neither exists.
\<close>

theorem declaration_file_translation:
  assumes "\<not> isBuiltin h (sanitizeSpecifier u name)" and "\<not> isInNodeModules u name"
    and "resolve_sync h (sanitizeSpecifier u name) (dirname u containingFile)
           (DEFAULT_EXTENSIONS u @ v) = None"
    and "ts_resolveModuleName h TsSys (sanitizeSpecifier u name) containingFile = Some m"
    and "isDeclarationFileExtension u (extension m)" and "isInternal u (resolvedFileName m)"
  shows "(extension m = ''.d.mts'' \<longrightarrow>
            resolveModuleName u h v name containingFile
              = (Some \<lparr> resolvedFileName = replaceSuffix ''.d.mts'' ''.mjs'' (resolvedFileName m),
                        extension = ''.mjs'', isExternalLibraryImport = False,
                        resolvedUsingTsExtension = Some False \<rparr>,
                 [ResolveSync (sanitizeSpecifier u name) (dirname u containingFile),
                  TsResolve TsSys (sanitizeSpecifier u name) containingFile]))
    \<and> (extension m = ''.d.cts'' \<longrightarrow>
            resolveModuleName u h v name containingFile
              = (Some \<lparr> resolvedFileName = replaceSuffix ''.d.cts'' ''.cjs'' (resolvedFileName m),
                        extension = ''.cjs'', isExternalLibraryImport = False,
                        resolvedUsingTsExtension = Some False \<rparr>,
                 [ResolveSync (sanitizeSpecifier u name) (dirname u containingFile),
                  TsResolve TsSys (sanitizeSpecifier u name) containingFile]))
    \<and> (extension m \<noteq> ''.d.mts'' \<and> extension m \<noteq> ''.d.cts''
        \<and> extname u (replaceSuffix ''.d.ts'' [] (resolvedFileName m)) \<noteq> []
        \<and> extname u (replaceSuffix ''.d.ts'' [] (resolvedFileName m)) \<in> set v \<longrightarrow>
            fst (resolveModuleName u h v name containingFile)
              = Some \<lparr> resolvedFileName =
                         ensureRealFilePath u (replaceSuffix ''.d.ts'' [] (resolvedFileName m)) v,
                       extension = ''.js'', isExternalLibraryImport = False,
                       resolvedUsingTsExtension = Some False \<rparr>)
    \<and> (extension m \<noteq> ''.d.mts'' \<and> extension m \<noteq> ''.d.cts''
        \<and> \<not> (extname u (replaceSuffix ''.d.ts'' [] (resolvedFileName m)) \<noteq> []
              \<and> extname u (replaceSuffix ''.d.ts'' [] (resolvedFileName m)) \<in> set v) \<longrightarrow>
            fst (resolveModuleName u h v name containingFile)
              = (let base = replaceSuffix ''.d.ts'' [] (resolvedFileName m);
                     js = fileExists_path u (base @ ''.js'') containingFile;
                     jsx = fileExists_path u (base @ ''.jsx'') containingFile
                 in if existsSync h js then
                      Some \<lparr> resolvedFileName = js, extension = extname u (base @ ''.js''),
                             isExternalLibraryImport = False, resolvedUsingTsExtension = Some False \<rparr>
                    else if existsSync h jsx then
                      Some \<lparr> resolvedFileName = jsx, extension = extname u (base @ ''.jsx''),
                             isExternalLibraryImport = False, resolvedUsingTsExtension = Some False \<rparr>
                    else Some m))"
proof (intro conjI impI)
  note whole = resolveModuleName_declaration [OF assms]
  show "resolveModuleName u h v name containingFile
              = (Some \<lparr> resolvedFileName = replaceSuffix ''.d.mts'' ''.mjs'' (resolvedFileName m),
                        extension = ''.mjs'', isExternalLibraryImport = False,
                        resolvedUsingTsExtension = Some False \<rparr>,
                 [ResolveSync (sanitizeSpecifier u name) (dirname u containingFile),
                  TsResolve TsSys (sanitizeSpecifier u name) containingFile])"
    if "extension m = ''.d.mts''"
    using that by (simp add: whole implementationFile_def)
  show "resolveModuleName u h v name containingFile
              = (Some \<lparr> resolvedFileName = replaceSuffix ''.d.cts'' ''.cjs'' (resolvedFileName m),
                        extension = ''.cjs'', isExternalLibraryImport = False,
                        resolvedUsingTsExtension = Some False \<rparr>,
                 [ResolveSync (sanitizeSpecifier u name) (dirname u containingFile),
                  TsResolve TsSys (sanitizeSpecifier u name) containingFile])"
    if "extension m = ''.d.cts''"
    using that by (simp add: whole implementationFile_def)
  show "fst (resolveModuleName u h v name containingFile)
              = Some \<lparr> resolvedFileName =
                         ensureRealFilePath u (replaceSuffix ''.d.ts'' [] (resolvedFileName m)) v,
                       extension = ''.js'', isExternalLibraryImport = False,
                       resolvedUsingTsExtension = Some False \<rparr>"
    if "extension m \<noteq> ''.d.mts'' \<and> extension m \<noteq> ''.d.cts''
        \<and> extname u (replaceSuffix ''.d.ts'' [] (resolvedFileName m)) \<noteq> []
        \<and> extname u (replaceSuffix ''.d.ts'' [] (resolvedFileName m)) \<in> set v"
    using that by (simp add: whole implementationFile_def Let_def)
  show "fst (resolveModuleName u h v name containingFile)
              = (let base = replaceSuffix ''.d.ts'' [] (resolvedFileName m);
                     js = fileExists_path u (base @ ''.js'') containingFile;
                     jsx = fileExists_path u (base @ ''.jsx'') containingFile
                 in if existsSync h js then
                      Some \<lparr> resolvedFileName = js, extension = extname u (base @ ''.js''),
                             isExternalLibraryImport = False, resolvedUsingTsExtension = Some False \<rparr>
                    else if existsSync h jsx then
                      Some \<lparr> resolvedFileName = jsx, extension = extname u (base @ ''.jsx''),
                             isExternalLibraryImport = False, resolvedUsingTsExtension = Some False \<rparr>
                    else Some m)"
    if "extension m \<noteq> ''.d.mts'' \<and> extension m \<noteq> ''.d.cts''
        \<and> \<not> (extname u (replaceSuffix ''.d.ts'' [] (resolvedFileName m)) \<noteq> []
              \<and> extname u (replaceSuffix ''.d.ts'' [] (resolvedFileName m)) \<in> set v)"
    using that implementationFile_probe [of m u v h containingFile] by (simp add: whole)
qed

lemma sample_lib_hyps:
  "\<not> isBuiltin sample_host (sanitizeSpecifier sample_util ''./lib.mjs'')"
  "\<not> isInNodeModules sample_util ''./lib.mjs''"
  "resolve_sync sample_host (sanitizeSpecifier sample_util ''./lib.mjs'')
     (dirname sample_util ''/p/src/index.ts'') (DEFAULT_EXTENSIONS sample_util @ []) = None"
  "ts_resolveModuleName sample_host TsSys (sanitizeSpecifier sample_util ''./lib.mjs'') ''/p/src/index.ts''
     = Some (sample_module ''/p/src/lib.d.mts'' ''.d.mts'')"
  "isDeclarationFileExtension sample_util (extension (sample_module ''/p/src/lib.d.mts'' ''.d.mts''))"
  "isInternal sample_util (resolvedFileName (sample_module ''/p/src/lib.d.mts'' ''.d.mts''))"
  by (simp_all add: sample_module_def sample_host_defs sample_path_defs)

lemma sample_types_hyps:
  "\<not> isBuiltin sample_host (sanitizeSpecifier sample_util ''./types'')"
  "\<not> isInNodeModules sample_util ''./types''"
  "resolve_sync sample_host (sanitizeSpecifier sample_util ''./types'')
     (dirname sample_util ''/p/src/index.ts'') (DEFAULT_EXTENSIONS sample_util @ []) = None"
  "ts_resolveModuleName sample_host TsSys (sanitizeSpecifier sample_util ''./types'') ''/p/src/index.ts''
     = Some (sample_module ''/p/src/types.d.ts'' ''.d.ts'')"
  "isDeclarationFileExtension sample_util (extension (sample_module ''/p/src/types.d.ts'' ''.d.ts''))"
  "isInternal sample_util (resolvedFileName (sample_module ''/p/src/types.d.ts'' ''.d.ts''))"
  by (simp_all add: sample_module_def sample_host_defs sample_path_defs)

lemma sample_legacy_hyps:
  "\<not> isBuiltin sample_host (sanitizeSpecifier sample_util ''~/legacy'')"
  "\<not> isInNodeModules sample_util ''~/legacy''"
  "resolve_sync sample_host (sanitizeSpecifier sample_util ''~/legacy'')
     (dirname sample_util ''/p/src/index.ts'') (DEFAULT_EXTENSIONS sample_util @ []) = None"
  "ts_resolveModuleName sample_host TsSys (sanitizeSpecifier sample_util ''~/legacy'') ''/p/src/index.ts''
     = Some (sample_module ''/p/src/legacy.d.ts'' ''.d.ts'')"
  "isDeclarationFileExtension sample_util (extension (sample_module ''/p/src/legacy.d.ts'' ''.d.ts''))"
  "isInternal sample_util (resolvedFileName (sample_module ''/p/src/legacy.d.ts'' ''.d.ts''))"
  by (simp_all add: sample_module_def sample_host_defs sample_path_defs)

lemma sample_declaration_files:
  "replaceSuffix ''.d.mts'' ''.mjs'' ''/p/src/lib.d.mts'' = ''/p/src/lib.mjs''"
  "replaceSuffix ''.d.ts'' [] ''/p/src/types.d.ts'' = ''/p/src/types''"
  "replaceSuffix ''.d.ts'' [] ''/p/src/legacy.d.ts'' = ''/p/src/legacy''"
  "fileExists_path sample_util ''/p/src/types.js'' ''/p/src/index.ts'' = ''/p/src/types.js''"
  "fileExists_path sample_util ''/p/src/types.jsx'' ''/p/src/index.ts'' = ''/p/src/types.jsx''"
  "fileExists_path sample_util ''/p/src/legacy.js'' ''/p/src/index.ts'' = ''/p/src/legacy.js''"
  "extname sample_util ''/p/src/legacy.js'' = ''.js''"
  "\<not> existsSync sample_host ''/p/src/types.js''"
  "\<not> existsSync sample_host ''/p/src/types.jsx''"
  "existsSync sample_host ''/p/src/legacy.js''"
  "\<not> existsSync sample_host ''/p/src/lib.mjs''"
  "\<not> existsSync sample_host ''/p/src/lib.js''"
  "\<not> existsSync sample_host ''/p/src/lib.jsx''"
  by (simp_all add: fileExists_path_def sample_host_defs sample_path_defs)

theorem declaration_file_translation_witness:
  "ts_resolveModuleName sample_host TsSys (sanitizeSpecifier sample_util ''./lib.mjs'') ''/p/src/index.ts''
     = Some (sample_module ''/p/src/lib.d.mts'' ''.d.mts'')
   \<and> fst (resolveModuleName sample_util sample_host [] ''./lib.mjs'' ''/p/src/index.ts'')
     = Some (sample_module ''/p/src/lib.mjs'' ''.mjs'')
   \<and> ts_resolveModuleName sample_host TsSys (sanitizeSpecifier sample_util ''./types'') ''/p/src/index.ts''
     = Some (sample_module ''/p/src/types.d.ts'' ''.d.ts'')
   \<and> fst (resolveModuleName sample_util sample_host [] ''./types'' ''/p/src/index.ts'')
     = Some (sample_module ''/p/src/types.d.ts'' ''.d.ts'')
   \<and> ts_resolveModuleName sample_host TsSys (sanitizeSpecifier sample_util ''~/legacy'') ''/p/src/index.ts''
     = Some (sample_module ''/p/src/legacy.d.ts'' ''.d.ts'')
   \<and> fst (resolveModuleName sample_util sample_host [] ''~/legacy'' ''/p/src/index.ts'')
     = Some (sample_module ''/p/src/legacy.js'' ''.js'')"
proof -
  note lib = declaration_file_translation [OF sample_lib_hyps, THEN conjunct1]
  note types = declaration_file_translation [OF sample_types_hyps, THEN conjunct2, THEN conjunct2, THEN conjunct2]
  note legacy = declaration_file_translation [OF sample_legacy_hyps, THEN conjunct2, THEN conjunct2, THEN conjunct2]
  from lib have "fst (resolveModuleName sample_util sample_host [] ''./lib.mjs'' ''/p/src/index.ts'')
     = Some (sample_module ''/p/src/lib.mjs'' ''.mjs'')"
    by (simp add: sample_module_def sample_declaration_files)
  moreover from types have "fst (resolveModuleName sample_util sample_host [] ''./types'' ''/p/src/index.ts'')
     = Some (sample_module ''/p/src/types.d.ts'' ''.d.ts'')"
    by (simp add: sample_module_def sample_declaration_files Let_def)
  moreover from legacy have "fst (resolveModuleName sample_util sample_host [] ''~/legacy'' ''/p/src/index.ts'')
     = Some (sample_module ''/p/src/legacy.js'' ''.js'')"
    by (simp add: sample_module_def sample_declaration_files Let_def)
  ultimately show ?thesis
    using sample_lib_hyps(4) sample_types_hyps(4) sample_legacy_hyps(4) by simp
qed

text \<open>The claim as it stands fails on \<open>import './lib.mjs'\<close>: the compiler resolves it to
  the internal declaration file \<open>/p/src/lib.d.mts\<close>, no implementation file exists on
  disk, and the result is \<open>/p/src/lib.mjs\<close>, not the declaration file.\<close>

theorem declaration_file_translation_counterexample:
  "ts_resolveModuleName sample_host TsSys (sanitizeSpecifier sample_util ''./lib.mjs'') ''/p/src/index.ts''
     = Some (sample_module ''/p/src/lib.d.mts'' ''.d.mts'')
   \<and> isDeclarationFileExtension sample_util ''.d.mts''
   \<and> isInternal sample_util ''/p/src/lib.d.mts''
   \<and> \<not> existsSync sample_host ''/p/src/lib.mjs''
   \<and> \<not> existsSync sample_host ''/p/src/lib.js''
   \<and> \<not> existsSync sample_host ''/p/src/lib.jsx''
   \<and> fst (resolveModuleName sample_util sample_host [] ''./lib.mjs'' ''/p/src/index.ts'')
       = Some (sample_module ''/p/src/lib.mjs'' ''.mjs'')
   \<and> fst (resolveModuleName sample_util sample_host [] ''./lib.mjs'' ''/p/src/index.ts'')
       \<noteq> Some (sample_module ''/p/src/lib.d.mts'' ''.d.mts'')"
  by (simp add: resolver_defs sample_module_def sample_host_defs sample_path_defs Let_def)

end
